theory Spec2Isabelle
  imports Main "HOL-Library.Multiset" "HOL-Library.List_Lexorder" "HOL-Library.Char_ord"
begin

section \<open>JavaScript values\<close>

text \<open>
  Every payload that reaches the server (a socket.io event argument, the JSON body of an
  HTTP request) is a JSON value, and the handlers only read properties of it, test it for
  truthiness and compare it with \<open>===\<close>. Numbers are modelled as integers and strings as
  byte lists (UTF-8); an object is the list of its own properties in insertion order.
\<close>

datatype jsval =
    JUndefined
  | JNull
  | JBool bool
  | JNum int
  | JStr string
  | JArr "jsval list"
  | JObj "(string \<times> jsval) list"

text \<open>\<open>!v\<close> is \<open>\<not> truthy v\<close>.\<close>

fun truthy :: "jsval \<Rightarrow> bool" where
  "truthy JUndefined = False"
| "truthy JNull = False"
| "truthy (JBool b) = b"
| "truthy (JNum n) = (n \<noteq> 0)"
| "truthy (JStr s) = (s \<noteq> [])"
| "truthy (JArr xs) = True"
| "truthy (JObj kvs) = True"

text \<open>Reading a property of \<open>undefined\<close> or \<open>null\<close> throws a TypeError.\<close>

fun nullish :: "jsval \<Rightarrow> bool" where
  "nullish JUndefined = True"
| "nullish JNull = True"
| "nullish v = False"

text \<open>
  \<open>v.k\<close> for the property names the server reads (\<open>username\<close>, \<open>role\<close>, \<open>id\<close>,
  \<open>owner\<close>, \<open>text\<close>, \<open>from\<close>, \<open>to\<close>): the value stored under \<open>k\<close> in an object,
  \<open>undefined\<close> for a missing key and for every value that is not an object. The callers
  below guard the read with \<open>nullish\<close> where the source can throw.
\<close>

fun get :: "jsval \<Rightarrow> string \<Rightarrow> jsval" where
  "get (JObj kvs) k = (case map_of kvs k of Some v \<Rightarrow> v | None \<Rightarrow> JUndefined)"
| "get v k = JUndefined"

text \<open>
  \<open>a === b\<close>. Two objects (or arrays) are strictly equal only when they are the same
  reference; the operands compared by the server come from different messages or are
  separately parsed properties, so an object or array operand is never equal to anything.
\<close>

fun strict_eq :: "jsval \<Rightarrow> jsval \<Rightarrow> bool" where
  "strict_eq (JObj kvs) b = False"
| "strict_eq (JArr xs) b = False"
| "strict_eq a b = (a = b)"

fun is_primitive :: "jsval \<Rightarrow> bool" where
  "is_primitive (JObj kvs) = False"
| "is_primitive (JArr xs) = False"
| "is_primitive v = True"

text \<open>Writing a property: an existing key keeps its place, a new key goes last.\<close>

fun set_prop :: "string \<Rightarrow> jsval \<Rightarrow> (string \<times> jsval) list \<Rightarrow> (string \<times> jsval) list" where
  "set_prop k v [] = [(k, v)]"
| "set_prop k v (p # ps) = (if fst p = k then (k, v) # ps else p # set_prop k v ps)"

fun dec :: "nat \<Rightarrow> string" where
  "dec n = (if n < 10 then [char_of (48 + n)] else dec (n div 10) @ [char_of (48 + n mod 10)])"

declare dec.simps [simp del]

fun indexed :: "nat \<Rightarrow> jsval list \<Rightarrow> (string \<times> jsval) list" where
  "indexed i [] = []"
| "indexed i (v # vs) = (dec i, v) # indexed (Suc i) vs"

text \<open>
  The own enumerable properties copied by \<open>{...v}\<close>: those of an object, the indexed
  elements of an array or of a string (one per byte here, one per UTF-16 unit in
  JavaScript), none for any other value.
\<close>

fun spread :: "jsval \<Rightarrow> (string \<times> jsval) list" where
  "spread (JObj kvs) = kvs"
| "spread (JArr xs) = indexed 0 xs"
| "spread (JStr s) = indexed 0 (map (\<lambda>c. JStr [c]) s)"
| "spread v = []"

fun intercalate :: "string \<Rightarrow> string list \<Rightarrow> string" where
  "intercalate sep [] = []"
| "intercalate sep [s] = s"
| "intercalate sep (s # t # ss) = s @ sep @ intercalate sep (t # ss)"

text \<open>The string a template literal \<open>`${v}`\<close> inserts for \<open>v\<close>.\<close>

fun to_js_string :: "jsval \<Rightarrow> string" where
  "to_js_string JUndefined = ''undefined''"
| "to_js_string JNull = ''null''"
| "to_js_string (JBool b) = (if b then ''true'' else ''false'')"
| "to_js_string (JNum n) = (if n < 0 then ''-'' @ dec (nat (- n)) else dec (nat n))"
| "to_js_string (JStr s) = s"
| "to_js_string (JArr xs) =
     intercalate '',''
       (map (\<lambda>x. if nullish x then [] else to_js_string x) xs)"
| "to_js_string (JObj kvs) = ''[object Object]''"

text \<open>
  \<open>JSON.stringify\<close> of an object leaves out the properties whose value is \<open>undefined\<close>.
  The payloads come from JSON, so only a property the server adds itself (\<open>userId\<close>) can
  be \<open>undefined\<close>; the JSON text is represented by the value it denotes.
\<close>

fun stringify :: "jsval \<Rightarrow> jsval" where
  "stringify (JObj kvs) = JObj (filter (\<lambda>kv. snd kv \<noteq> JUndefined) kvs)"
| "stringify v = v"

section \<open>The database\<close>

text \<open>
  The two tables of \<open>initializeDatabase\<close>. A table is the list of its rows;
  \<open>AUTOINCREMENT\<close> takes the next id from a counter that never goes back. The
  \<open>DATETIME\<close> columns hold the text of \<open>CURRENT_TIMESTAMP\<close>, which SQLite compares
  byte by byte: the order on \<open>string\<close> is that lexicographic order.

  Two conversions of the SQLite build that serves the database are not computed here.
  They are fields of the database, the same in every state of it: \<open>integer_of_text\<close>,
  the integer that a bound text equals when it is compared with an integer column
  (\<open>None\<close> when it equals none), and \<open>text_of_real\<close>, the text that a \<open>TEXT\<close> column
  stores for a number bound as a floating-point value. The properties below hold
  whatever the two conversions are.
\<close>

record drawing =
  drawings_id :: nat
  drawings_type :: jsval
  drawings_data :: jsval
  drawings_user_id :: jsval
  drawings_created_at :: string

record session =
  sessions_id :: nat
  sessions_username :: jsval
  sessions_role :: jsval
  sessions_socket_id :: string
  sessions_connected_at :: string

record db =
  drawings :: "drawing list"
  drawings_seq :: nat
  user_sessions :: "session list"
  user_sessions_seq :: nat
  integer_of_text :: "string \<Rightarrow> int option"
  text_of_real :: "int \<Rightarrow> string"

definition int32 :: "int \<Rightarrow> bool" where
  "int32 n \<longleftrightarrow> - (2 ^ 31) \<le> n \<and> n < 2 ^ 31"

text \<open>
  \<open>LIMIT\<close> and \<open>OFFSET\<close> take an integer, and a floating-point value that is whole
  and lies strictly between \<open>-2\<^sup>6\<^sup>3\<close> and \<open>2\<^sup>6\<^sup>3\<close>; the statement fails for any other number.
\<close>

definition limit_range :: "int \<Rightarrow> bool" where
  "limit_range n \<longleftrightarrow> - (2 ^ 63) < n \<and> n < 2 ^ 63"

text \<open>
  What a \<open>TEXT\<close> column (\<open>type\<close>, \<open>user_id\<close>, \<open>username\<close>, \<open>role\<close>) stores for a bound
  value. The driver binds \<open>undefined\<close> and \<open>null\<close> as \<open>NULL\<close>, a string as itself, a
  boolean as the integer 0 or 1, a number as an integer when it fits 32 bits and as a
  floating-point value otherwise, an array or an object as the text
  \<open>'[object Object]'\<close>; the column stores a number in its text form.
\<close>

fun bind :: "db \<Rightarrow> jsval \<Rightarrow> jsval" where
  "bind d JUndefined = JNull"
| "bind d JNull = JNull"
| "bind d (JBool b) = JStr (if b then ''1'' else ''0'')"
| "bind d (JNum n) = JStr (if int32 n then to_js_string (JNum n) else text_of_real d n)"
| "bind d (JStr s) = JStr s"
| "bind d (JArr xs) = JStr ''[object Object]''"
| "bind d (JObj kvs) = JStr ''[object Object]''"

text \<open>
  \<open>WHERE id = ?\<close> compares the integer primary key with the bound value: \<open>NULL\<close> equals
  no id, a number is itself, a boolean is 0 or 1, and a text (also the text an array or
  an object is bound as) is the integer the engine's numeric conversion makes of it, if
  any.
\<close>

fun sql_int_of :: "db \<Rightarrow> jsval \<Rightarrow> int option" where
  "sql_int_of d JUndefined = None"
| "sql_int_of d JNull = None"
| "sql_int_of d (JBool b) = Some (if b then 1 else 0)"
| "sql_int_of d (JNum n) = Some n"
| "sql_int_of d (JStr s) = integer_of_text d s"
| "sql_int_of d (JArr xs) = integer_of_text d ''[object Object]''"
| "sql_int_of d (JObj kvs) = integer_of_text d ''[object Object]''"

definition id_matches :: "db \<Rightarrow> jsval \<Rightarrow> drawing \<Rightarrow> bool" where
  "id_matches d key r \<longleftrightarrow> sql_int_of d key = Some (int (drawings_id r))"

text \<open>\<open>INSERT INTO drawings (type, data, user_id) VALUES (?, ?, ?)\<close> at clock reading \<open>now\<close>.\<close>

definition insert_drawing :: "string \<Rightarrow> jsval \<Rightarrow> jsval \<Rightarrow> jsval \<Rightarrow> db \<Rightarrow> db" where
  "insert_drawing now ty dat uid d =
     d\<lparr>drawings := drawings d @
          [\<lparr>drawings_id = Suc (drawings_seq d), drawings_type = bind d ty, drawings_data = dat,
            drawings_user_id = bind d uid, drawings_created_at = now\<rparr>],
       drawings_seq := Suc (drawings_seq d)\<rparr>"

text \<open>\<open>UPDATE drawings SET data = ? WHERE id = ?\<close>\<close>

definition update_drawing :: "jsval \<Rightarrow> jsval \<Rightarrow> db \<Rightarrow> db" where
  "update_drawing dat key d =
     d\<lparr>drawings := map (\<lambda>r. if id_matches d key r then r\<lparr>drawings_data := dat\<rparr> else r) (drawings d)\<rparr>"

text \<open>\<open>DELETE FROM drawings WHERE id = ?\<close>, and the number of rows it removes (\<open>this.changes\<close>).\<close>

definition delete_drawing :: "jsval \<Rightarrow> db \<Rightarrow> db" where
  "delete_drawing key d = d\<lparr>drawings := filter (\<lambda>r. \<not> id_matches d key r) (drawings d)\<rparr>"

definition delete_changes :: "jsval \<Rightarrow> db \<Rightarrow> nat" where
  "delete_changes key d = length (filter (id_matches d key) (drawings d))"

text \<open>\<open>DELETE FROM drawings\<close>\<close>

definition delete_all_drawings :: "db \<Rightarrow> db" where
  "delete_all_drawings d = d\<lparr>drawings := []\<rparr>"

text \<open>
  \<open>INSERT OR REPLACE INTO user_sessions (username, role, socket_id) VALUES (?, ?, ?)\<close> of
  server.js, where \<open>socket_id\<close> is \<open>UNIQUE\<close>: the rows that hold the same socket id are
  deleted and the new row is inserted. \<open>username\<close> and \<open>role\<close> are \<open>NOT NULL\<close>
  without a default, so a \<open>NULL\<close> there aborts the statement (\<open>None\<close>).
\<close>

definition new_session :: "string \<Rightarrow> jsval \<Rightarrow> jsval \<Rightarrow> string \<Rightarrow> db \<Rightarrow> session" where
  "new_session now uname role sid d =
     \<lparr>sessions_id = Suc (user_sessions_seq d), sessions_username = bind d uname,
      sessions_role = bind d role, sessions_socket_id = sid, sessions_connected_at = now\<rparr>"

definition insert_or_replace_session :: "string \<Rightarrow> jsval \<Rightarrow> jsval \<Rightarrow> string \<Rightarrow> db \<Rightarrow> db option" where
  "insert_or_replace_session now uname role sid d =
     (if nullish uname \<or> nullish role then None
      else Some (d\<lparr>user_sessions :=
                      filter (\<lambda>r. sessions_socket_id r \<noteq> sid) (user_sessions d) @
                      [new_session now uname role sid d],
                    user_sessions_seq := Suc (user_sessions_seq d)\<rparr>))"

text \<open>
  \<open>INSERT INTO user_sessions (username, role, socket_id) VALUES (?, ?, ?)\<close> of the other
  server file, whose table declares \<open>socket_id TEXT\<close> without \<open>UNIQUE\<close>.
\<close>

definition insert_session :: "string \<Rightarrow> jsval \<Rightarrow> jsval \<Rightarrow> string \<Rightarrow> db \<Rightarrow> db option" where
  "insert_session now uname role sid d =
     (if nullish uname \<or> nullish role then None
      else Some (d\<lparr>user_sessions := user_sessions d @ [new_session now uname role sid d],
                    user_sessions_seq := Suc (user_sessions_seq d)\<rparr>))"

text \<open>\<open>DELETE FROM user_sessions WHERE socket_id = ?\<close>\<close>

definition delete_session :: "string \<Rightarrow> db \<Rightarrow> db" where
  "delete_session sid d =
     d\<lparr>user_sessions := filter (\<lambda>r. sessions_socket_id r \<noteq> sid) (user_sessions d)\<rparr>"

text \<open>\<open>DELETE FROM user_sessions WHERE connected_at < ?\<close>, the hourly sweep.\<close>

definition delete_old_sessions :: "string \<Rightarrow> db \<Rightarrow> db" where
  "delete_old_sessions cutoff d =
     d\<lparr>user_sessions := filter (\<lambda>r. \<not> sessions_connected_at r < cutoff) (user_sessions d)\<rparr>"

text \<open>
  \<open>SELECT * FROM drawings ORDER BY created_at ASC\<close>. The query names one sort key.
  SQLite scans the table in rowid order, the id being the rowid, and its sort keeps the
  scan order among the rows of one \<open>created_at\<close>: the answer is the stable sort by
  \<open>created_at\<close> of the rows in id order.
\<close>

definition order_by_created_at :: "drawing list \<Rightarrow> drawing list" where
  "order_by_created_at rows = sort_key drawings_created_at (sort_key drawings_id rows)"

text \<open>\<open>LIMIT l OFFSET o\<close>: a negative limit is no limit, a negative offset is none.\<close>

definition limit_offset :: "int \<Rightarrow> int \<Rightarrow> 'a list \<Rightarrow> 'a list" where
  "limit_offset l off xs =
     (let ys = drop (nat off) xs in if l < 0 then ys else take (nat l) ys)"

section \<open>Messages\<close>

text \<open>
  What a handler sends: \<open>socket.emit\<close> reaches the socket the handler runs for,
  \<open>socket.broadcast.emit\<close> every connected socket but that one, \<open>io.emit\<close> every
  connected socket. An emit is the scope, the event name and the argument
  (\<open>JUndefined\<close> when the event carries none).
\<close>

datatype target = ToSender | ToOthers | ToAll

type_synonym emit = "target \<times> string \<times> jsval"

text \<open>Whether connection \<open>c\<close> receives a message of scope \<open>t\<close> sent by the handler of \<open>sender\<close>.\<close>

fun delivered_to :: "target \<Rightarrow> string \<Rightarrow> string \<Rightarrow> bool" where
  "delivered_to ToSender sender c = (c = sender)"
| "delivered_to ToOthers sender c = (c \<noteq> sender)"
| "delivered_to ToAll sender c = True"

text \<open>What connection \<open>c\<close> receives of the messages \<open>es\<close> sent by the handler of \<open>sender\<close>.\<close>

definition received :: "string \<Rightarrow> emit list \<Rightarrow> string \<Rightarrow> (string \<times> jsval) list" where
  "received sender es c = map snd (filter (\<lambda>e. delivered_to (fst e) sender c) es)"

text \<open>The Russian message texts of the source, as UTF-8 bytes.\<close>

definition joined_suffix :: string where \<comment> \<open> joined the board\<close>
  "joined_suffix =
     [CHR '' '', CHR 0xD0, CHR 0xBF, CHR 0xD1, CHR 0x80, CHR 0xD0, CHR 0xB8, CHR 0xD1,
      CHR 0x81, CHR 0xD0, CHR 0xBE, CHR 0xD0, CHR 0xB5, CHR 0xD0, CHR 0xB4, CHR 0xD0,
      CHR 0xB8, CHR 0xD0, CHR 0xBD, CHR 0xD0, CHR 0xB8, CHR 0xD0, CHR 0xBB, CHR 0xD1,
      CHR 0x81, CHR 0xD1, CHR 0x8F, CHR '' '', CHR 0xD0, CHR 0xBA, CHR '' '', CHR 0xD0,
      CHR 0xB4, CHR 0xD0, CHR 0xBE, CHR 0xD1, CHR 0x81, CHR 0xD0, CHR 0xBA, CHR 0xD0,
      CHR 0xB5]"

definition left_suffix :: string where \<comment> \<open> left the board\<close>
  "left_suffix =
     [CHR '' '', CHR 0xD0, CHR 0xBF, CHR 0xD0, CHR 0xBE, CHR 0xD0, CHR 0xBA, CHR 0xD0,
      CHR 0xB8, CHR 0xD0, CHR 0xBD, CHR 0xD1, CHR 0x83, CHR 0xD0, CHR 0xBB, CHR '' '',
      CHR 0xD0, CHR 0xB4, CHR 0xD0, CHR 0xBE, CHR 0xD1, CHR 0x81, CHR 0xD0, CHR 0xBA,
      CHR 0xD1, CHR 0x83]"

definition cleared_suffix :: string where \<comment> \<open> cleared the board\<close>
  "cleared_suffix =
     [CHR '' '', CHR 0xD0, CHR 0xBE, CHR 0xD1, CHR 0x87, CHR 0xD0, CHR 0xB8, CHR 0xD1,
      CHR 0x81, CHR 0xD1, CHR 0x82, CHR 0xD0, CHR 0xB8, CHR 0xD0, CHR 0xBB, CHR '' '',
      CHR 0xD0, CHR 0xB4, CHR 0xD0, CHR 0xBE, CHR 0xD1, CHR 0x81, CHR 0xD0, CHR 0xBA,
      CHR 0xD1, CHR 0x83]"

definition msg_no_edit :: string where \<comment> \<open>No rights to edit this text\<close>
  "msg_no_edit =
     [CHR 0xD0, CHR 0x9D, CHR 0xD0, CHR 0xB5, CHR 0xD1, CHR 0x82, CHR '' '', CHR 0xD0,
      CHR 0xBF, CHR 0xD1, CHR 0x80, CHR 0xD0, CHR 0xB0, CHR 0xD0, CHR 0xB2, CHR '' '',
      CHR 0xD0, CHR 0xB4, CHR 0xD0, CHR 0xBB, CHR 0xD1, CHR 0x8F, CHR '' '', CHR 0xD1,
      CHR 0x80, CHR 0xD0, CHR 0xB5, CHR 0xD0, CHR 0xB4, CHR 0xD0, CHR 0xB0, CHR 0xD0,
      CHR 0xBA, CHR 0xD1, CHR 0x82, CHR 0xD0, CHR 0xB8, CHR 0xD1, CHR 0x80, CHR 0xD0,
      CHR 0xBE, CHR 0xD0, CHR 0xB2, CHR 0xD0, CHR 0xB0, CHR 0xD0, CHR 0xBD, CHR 0xD0,
      CHR 0xB8, CHR 0xD1, CHR 0x8F, CHR '' '', CHR 0xD1, CHR 0x8D, CHR 0xD1, CHR 0x82,
      CHR 0xD0, CHR 0xBE, CHR 0xD0, CHR 0xB3, CHR 0xD0, CHR 0xBE, CHR '' '', CHR 0xD1,
      CHR 0x82, CHR 0xD0, CHR 0xB5, CHR 0xD0, CHR 0xBA, CHR 0xD1, CHR 0x81, CHR 0xD1,
      CHR 0x82, CHR 0xD0, CHR 0xB0]"

definition msg_no_move :: string where \<comment> \<open>No rights to move this text\<close>
  "msg_no_move =
     [CHR 0xD0, CHR 0x9D, CHR 0xD0, CHR 0xB5, CHR 0xD1, CHR 0x82, CHR '' '', CHR 0xD0,
      CHR 0xBF, CHR 0xD1, CHR 0x80, CHR 0xD0, CHR 0xB0, CHR 0xD0, CHR 0xB2, CHR '' '',
      CHR 0xD0, CHR 0xB4, CHR 0xD0, CHR 0xBB, CHR 0xD1, CHR 0x8F, CHR '' '', CHR 0xD0,
      CHR 0xBF, CHR 0xD0, CHR 0xB5, CHR 0xD1, CHR 0x80, CHR 0xD0, CHR 0xB5, CHR 0xD0,
      CHR 0xBC, CHR 0xD0, CHR 0xB5, CHR 0xD1, CHR 0x89, CHR 0xD0, CHR 0xB5, CHR 0xD0,
      CHR 0xBD, CHR 0xD0, CHR 0xB8, CHR 0xD1, CHR 0x8F, CHR '' '', CHR 0xD1, CHR 0x8D,
      CHR 0xD1, CHR 0x82, CHR 0xD0, CHR 0xBE, CHR 0xD0, CHR 0xB3, CHR 0xD0, CHR 0xBE,
      CHR '' '', CHR 0xD1, CHR 0x82, CHR 0xD0, CHR 0xB5, CHR 0xD0, CHR 0xBA, CHR 0xD1,
      CHR 0x81, CHR 0xD1, CHR 0x82, CHR 0xD0, CHR 0xB0]"

definition msg_no_delete :: string where \<comment> \<open>No rights to delete this text\<close>
  "msg_no_delete =
     [CHR 0xD0, CHR 0x9D, CHR 0xD0, CHR 0xB5, CHR 0xD1, CHR 0x82, CHR '' '', CHR 0xD0,
      CHR 0xBF, CHR 0xD1, CHR 0x80, CHR 0xD0, CHR 0xB0, CHR 0xD0, CHR 0xB2, CHR '' '',
      CHR 0xD0, CHR 0xB4, CHR 0xD0, CHR 0xBB, CHR 0xD1, CHR 0x8F, CHR '' '', CHR 0xD1,
      CHR 0x83, CHR 0xD0, CHR 0xB4, CHR 0xD0, CHR 0xB0, CHR 0xD0, CHR 0xBB, CHR 0xD0,
      CHR 0xB5, CHR 0xD0, CHR 0xBD, CHR 0xD0, CHR 0xB8, CHR 0xD1, CHR 0x8F, CHR '' '',
      CHR 0xD1, CHR 0x8D, CHR 0xD1, CHR 0x82, CHR 0xD0, CHR 0xBE, CHR 0xD0, CHR 0xB3,
      CHR 0xD0, CHR 0xBE, CHR '' '', CHR 0xD1, CHR 0x82, CHR 0xD0, CHR 0xB5, CHR 0xD0,
      CHR 0xBA, CHR 0xD1, CHR 0x81, CHR 0xD1, CHR 0x82, CHR 0xD0, CHR 0xB0]"

definition msg_update_failed :: string where \<comment> \<open>Error while updating the text\<close>
  "msg_update_failed =
     [CHR 0xD0, CHR 0x9E, CHR 0xD1, CHR 0x88, CHR 0xD0, CHR 0xB8, CHR 0xD0, CHR 0xB1,
      CHR 0xD0, CHR 0xBA, CHR 0xD0, CHR 0xB0, CHR '' '', CHR 0xD0, CHR 0xBF, CHR 0xD1,
      CHR 0x80, CHR 0xD0, CHR 0xB8, CHR '' '', CHR 0xD0, CHR 0xBE, CHR 0xD0, CHR 0xB1,
      CHR 0xD0, CHR 0xBD, CHR 0xD0, CHR 0xBE, CHR 0xD0, CHR 0xB2, CHR 0xD0, CHR 0xBB,
      CHR 0xD0, CHR 0xB5, CHR 0xD0, CHR 0xBD, CHR 0xD0, CHR 0xB8, CHR 0xD0, CHR 0xB8,
      CHR '' '', CHR 0xD1, CHR 0x82, CHR 0xD0, CHR 0xB5, CHR 0xD0, CHR 0xBA, CHR 0xD1,
      CHR 0x81, CHR 0xD1, CHR 0x82, CHR 0xD0, CHR 0xB0]"

definition msg_move_failed :: string where \<comment> \<open>Error while moving the text\<close>
  "msg_move_failed =
     [CHR 0xD0, CHR 0x9E, CHR 0xD1, CHR 0x88, CHR 0xD0, CHR 0xB8, CHR 0xD0, CHR 0xB1,
      CHR 0xD0, CHR 0xBA, CHR 0xD0, CHR 0xB0, CHR '' '', CHR 0xD0, CHR 0xBF, CHR 0xD1,
      CHR 0x80, CHR 0xD0, CHR 0xB8, CHR '' '', CHR 0xD0, CHR 0xBF, CHR 0xD0, CHR 0xB5,
      CHR 0xD1, CHR 0x80, CHR 0xD0, CHR 0xB5, CHR 0xD0, CHR 0xBC, CHR 0xD0, CHR 0xB5,
      CHR 0xD1, CHR 0x89, CHR 0xD0, CHR 0xB5, CHR 0xD0, CHR 0xBD, CHR 0xD0, CHR 0xB8,
      CHR 0xD0, CHR 0xB8, CHR '' '', CHR 0xD1, CHR 0x82, CHR 0xD0, CHR 0xB5, CHR 0xD0,
      CHR 0xBA, CHR 0xD1, CHR 0x81, CHR 0xD1, CHR 0x82, CHR 0xD0, CHR 0xB0]"

definition msg_delete_failed :: string where \<comment> \<open>Error while deleting the text\<close>
  "msg_delete_failed =
     [CHR 0xD0, CHR 0x9E, CHR 0xD1, CHR 0x88, CHR 0xD0, CHR 0xB8, CHR 0xD0, CHR 0xB1,
      CHR 0xD0, CHR 0xBA, CHR 0xD0, CHR 0xB0, CHR '' '', CHR 0xD0, CHR 0xBF, CHR 0xD1,
      CHR 0x80, CHR 0xD0, CHR 0xB8, CHR '' '', CHR 0xD1, CHR 0x83, CHR 0xD0, CHR 0xB4,
      CHR 0xD0, CHR 0xB0, CHR 0xD0, CHR 0xBB, CHR 0xD0, CHR 0xB5, CHR 0xD0, CHR 0xBD,
      CHR 0xD0, CHR 0xB8, CHR 0xD0, CHR 0xB8, CHR '' '', CHR 0xD1, CHR 0x82, CHR 0xD0,
      CHR 0xB5, CHR 0xD0, CHR 0xBA, CHR 0xD1, CHR 0x81, CHR 0xD1, CHR 0x82, CHR 0xD0,
      CHR 0xB0]"

definition msg_only_teacher :: string where \<comment> \<open>Only the teacher can clear the board\<close>
  "msg_only_teacher =
     [CHR 0xD0, CHR 0xA2, CHR 0xD0, CHR 0xBE, CHR 0xD0, CHR 0xBB, CHR 0xD1, CHR 0x8C,
      CHR 0xD0, CHR 0xBA, CHR 0xD0, CHR 0xBE, CHR '' '', CHR 0xD1, CHR 0x83, CHR 0xD1,
      CHR 0x87, CHR 0xD0, CHR 0xB8, CHR 0xD1, CHR 0x82, CHR 0xD0, CHR 0xB5, CHR 0xD0,
      CHR 0xBB, CHR 0xD1, CHR 0x8C, CHR '' '', CHR 0xD0, CHR 0xBC, CHR 0xD0, CHR 0xBE,
      CHR 0xD0, CHR 0xB6, CHR 0xD0, CHR 0xB5, CHR 0xD1, CHR 0x82, CHR '' '', CHR 0xD0,
      CHR 0xBE, CHR 0xD1, CHR 0x87, CHR 0xD0, CHR 0xB8, CHR 0xD1, CHR 0x81, CHR 0xD1,
      CHR 0x82, CHR 0xD0, CHR 0xB8, CHR 0xD1, CHR 0x82, CHR 0xD1, CHR 0x8C, CHR '' '',
      CHR 0xD0, CHR 0xB4, CHR 0xD0, CHR 0xBE, CHR 0xD1, CHR 0x81, CHR 0xD0, CHR 0xBA,
      CHR 0xD1, CHR 0x83]"

definition msg_clear_failed :: string where \<comment> \<open>Error while clearing the board\<close>
  "msg_clear_failed =
     [CHR 0xD0, CHR 0x9E, CHR 0xD1, CHR 0x88, CHR 0xD0, CHR 0xB8, CHR 0xD0, CHR 0xB1,
      CHR 0xD0, CHR 0xBA, CHR 0xD0, CHR 0xB0, CHR '' '', CHR 0xD0, CHR 0xBF, CHR 0xD1,
      CHR 0x80, CHR 0xD0, CHR 0xB8, CHR '' '', CHR 0xD0, CHR 0xBE, CHR 0xD1, CHR 0x87,
      CHR 0xD0, CHR 0xB8, CHR 0xD1, CHR 0x81, CHR 0xD1, CHR 0x82, CHR 0xD0, CHR 0xBA,
      CHR 0xD0, CHR 0xB5, CHR '' '', CHR 0xD0, CHR 0xB4, CHR 0xD0, CHR 0xBE, CHR 0xD1,
      CHR 0x81, CHR 0xD0, CHR 0xBA, CHR 0xD0, CHR 0xB8]"

definition msg_no_delete_rights :: string where \<comment> \<open>No rights to delete\<close>
  "msg_no_delete_rights =
     [CHR 0xD0, CHR 0x9D, CHR 0xD0, CHR 0xB5, CHR 0xD1, CHR 0x82, CHR '' '', CHR 0xD0,
      CHR 0xBF, CHR 0xD1, CHR 0x80, CHR 0xD0, CHR 0xB0, CHR 0xD0, CHR 0xB2, CHR '' '',
      CHR 0xD0, CHR 0xB4, CHR 0xD0, CHR 0xBB, CHR 0xD1, CHR 0x8F, CHR '' '', CHR 0xD1,
      CHR 0x83, CHR 0xD0, CHR 0xB4, CHR 0xD0, CHR 0xB0, CHR 0xD0, CHR 0xBB, CHR 0xD0,
      CHR 0xB5, CHR 0xD0, CHR 0xBD, CHR 0xD0, CHR 0xB8, CHR 0xD1, CHR 0x8F]"

section \<open>The permission check\<close>

text \<open>The role literal \<open>'Administrator'\<close> of the source, in Russian, as UTF-8 bytes.\<close>

definition Administrator :: string where
  "Administrator =
     [CHR 0xD0, CHR 0x90, CHR 0xD0, CHR 0xB4, CHR 0xD0, CHR 0xBC, CHR 0xD0, CHR 0xB8,
      CHR 0xD0, CHR 0xBD, CHR 0xD0, CHR 0xB8, CHR 0xD1, CHR 0x81, CHR 0xD1, CHR 0x82,
      CHR 0xD1, CHR 0x80, CHR 0xD0, CHR 0xB0, CHR 0xD1, CHR 0x82, CHR 0xD0, CHR 0xBE,
      CHR 0xD1, CHR 0x80]"

text \<open>
  \<open>socket.userData.role === 'Administrator' || socket.userData.username === data.owner\<close>,
  written three times in the source: in \<open>textUpdate\<close>, \<open>textMove\<close> and \<open>textDelete\<close>,
  identically in both server files.
\<close>

definition canEdit :: "jsval \<Rightarrow> jsval \<Rightarrow> bool" where
  "canEdit userData data \<longleftrightarrow>
     strict_eq (get userData ''role'') (JStr Administrator) \<or>
     strict_eq (get userData ''username'') (get data ''owner'')"

definition canMove :: "jsval \<Rightarrow> jsval \<Rightarrow> bool" where
  "canMove userData data \<longleftrightarrow>
     strict_eq (get userData ''role'') (JStr Administrator) \<or>
     strict_eq (get userData ''username'') (get data ''owner'')"

definition canDelete :: "jsval \<Rightarrow> jsval \<Rightarrow> bool" where
  "canDelete userData data \<longleftrightarrow>
     strict_eq (get userData ''role'') (JStr Administrator) \<or>
     strict_eq (get userData ''username'') (get data ''owner'')"

section \<open>The socket handlers of server.js\<close>

text \<open>
  A handler runs for one socket: it may set \<open>socket.userData\<close>, issue one database
  statement and emit messages. What the environment decides is a parameter of the
  handler: \<open>fault\<close> (the statement ends with an error and changes nothing), \<open>now\<close> (the
  \<open>CURRENT_TIMESTAMP\<close> of an insert), \<open>ts\<close> (\<open>new Date().toISOString()\<close>) and \<open>q\<close> (the
  rows the \<open>SELECT\<close> of \<open>updateOnlineUsers\<close> answers, \<open>None\<close> when it fails). The
  handler only queues its statement; the model runs it within the same step, so that
  statements run in the order they are issued. The emits are listed in the order they
  are sent: the synchronous ones first, then those of the statement's callback.
\<close>

record socket =
  socket_id :: string
  userData :: jsval

definition session_row :: "session \<Rightarrow> jsval" where
  "session_row r =
     JObj [(''username'', sessions_username r), (''role'', sessions_role r),
           (''connected_at'', JStr (sessions_connected_at r))]"

definition updateOnlineUsers :: "session list option \<Rightarrow> emit list" where
  "updateOnlineUsers q =
     (case q of None \<Rightarrow> [] | Some rows \<Rightarrow> [(ToAll, ''online_users_update'', JArr (map session_row rows))])"

definition user_join ::
  "bool \<Rightarrow> session list option \<Rightarrow> string \<Rightarrow> string \<Rightarrow> jsval \<Rightarrow> socket \<Rightarrow> db \<Rightarrow> socket \<times> db \<times> emit list" where
  "user_join fault q now ts uData s d =
     (if \<not> truthy uData \<or> \<not> truthy (get uData ''username'') then (s, d, [])
      else
        (s\<lparr>userData :=
             JObj (set_prop ''joinedAt'' (JStr ts)
                    (set_prop ''socketId'' (JStr (socket_id s)) (spread uData)))\<rparr>,
         (if fault then d
          else case insert_or_replace_session now (get uData ''username'') (get uData ''role'')
                      (socket_id s) d of
                 None \<Rightarrow> d
               | Some d' \<Rightarrow> d'),
         (ToOthers, ''user_joined'',
            JObj [(''username'', get uData ''username''), (''role'', get uData ''role''),
                  (''message'', JStr (to_js_string (get uData ''username'') @ joined_suffix)),
                  (''timestamp'', JStr ts)])
         # updateOnlineUsers q))"

text \<open>\<open>{...data, timestamp: new Date().toISOString(), userId: socket.userData.username}\<close>\<close>

definition stamped :: "string \<Rightarrow> socket \<Rightarrow> jsval \<Rightarrow> jsval" where
  "stamped ts s dat =
     JObj (set_prop ''userId'' (get (userData s) ''username'')
            (set_prop ''timestamp'' (JStr ts) (spread dat)))"

definition drawing ::
  "bool \<Rightarrow> string \<Rightarrow> string \<Rightarrow> jsval \<Rightarrow> socket \<Rightarrow> db \<Rightarrow> socket \<times> db \<times> emit list" where
  "drawing fault now ts dat s d =
     (if \<not> truthy (userData s) then (s, d, [])
      else if \<not> truthy dat \<or> \<not> truthy (get dat ''from'') \<or> \<not> truthy (get dat ''to'') then (s, d, [])
      else
        (s,
         (if fault then d
          else insert_drawing now (JStr ''drawing'') (stringify (stamped ts s dat))
                 (get (userData s) ''username'') d),
         [(ToOthers, ''drawing'', stamped ts s dat)]))"

text \<open>The handler of the \<open>text\<close> event.\<close>

definition text_created ::
  "bool \<Rightarrow> string \<Rightarrow> string \<Rightarrow> jsval \<Rightarrow> socket \<Rightarrow> db \<Rightarrow> socket \<times> db \<times> emit list" where
  "text_created fault now ts dat s d =
     (if \<not> truthy (userData s) then (s, d, [])
      else if \<not> truthy dat \<or> \<not> truthy (get dat ''text'') \<or> \<not> truthy (get dat ''id'') then (s, d, [])
      else
        (s,
         (if fault then d
          else insert_drawing now (JStr ''text'') (stringify (stamped ts s dat))
                 (get (userData s) ''username'') d),
         [(ToOthers, ''text'', stamped ts s dat)]))"

definition error_notice :: "string \<Rightarrow> emit" where
  "error_notice m = (ToSender, ''error'', JObj [(''message'', JStr m)])"

definition textUpdate ::
  "bool \<Rightarrow> string \<Rightarrow> jsval \<Rightarrow> socket \<Rightarrow> db \<Rightarrow> socket \<times> db \<times> emit list" where
  "textUpdate fault ts dat s d =
     (if \<not> truthy (userData s) then (s, d, [])
      else if \<not> truthy dat \<or> \<not> truthy (get dat ''id'') then (s, d, [])
      else if \<not> canEdit (userData s) dat then (s, d, [error_notice msg_no_edit])
      else
        (s,
         (if fault then d else update_drawing (stringify (stamped ts s dat)) (get dat ''id'') d),
         (ToOthers, ''textUpdate'', stamped ts s dat)
         # (if fault then [error_notice msg_update_failed] else [])))"

definition textMove ::
  "bool \<Rightarrow> string \<Rightarrow> jsval \<Rightarrow> socket \<Rightarrow> db \<Rightarrow> socket \<times> db \<times> emit list" where
  "textMove fault ts dat s d =
     (if \<not> truthy (userData s) then (s, d, [])
      else if \<not> truthy dat \<or> \<not> truthy (get dat ''id'') then (s, d, [])
      else if \<not> canMove (userData s) dat then (s, d, [error_notice msg_no_move])
      else
        (s,
         (if fault then d else update_drawing (stringify (stamped ts s dat)) (get dat ''id'') d),
         (ToOthers, ''textMove'', stamped ts s dat)
         # (if fault then [error_notice msg_move_failed] else [])))"

definition textDelete ::
  "bool \<Rightarrow> jsval \<Rightarrow> socket \<Rightarrow> db \<Rightarrow> socket \<times> db \<times> emit list" where
  "textDelete fault dat s d =
     (if \<not> truthy (userData s) then (s, d, [])
      else if \<not> truthy dat \<or> \<not> truthy (get dat ''id'') then (s, d, [])
      else if \<not> canDelete (userData s) dat then (s, d, [error_notice msg_no_delete])
      else
        (s,
         (if fault then d else delete_drawing (get dat ''id'') d),
         (ToOthers, ''textDelete'', get dat ''id'')
         # (if fault then [error_notice msg_delete_failed] else [])))"

definition cleared_notification :: "string \<Rightarrow> socket \<Rightarrow> jsval" where
  "cleared_notification ts s =
     JObj [(''message'', JStr (to_js_string (get (userData s) ''username'') @ cleared_suffix)),
           (''type'', JStr ''info''), (''timestamp'', JStr ts)]"

definition clear :: "bool \<Rightarrow> string \<Rightarrow> socket \<Rightarrow> db \<Rightarrow> socket \<times> db \<times> emit list" where
  "clear fault ts s d =
     (if \<not> truthy (userData s) then (s, d, [])
      else if \<not> strict_eq (get (userData s) ''role'') (JStr Administrator) then
        (s, d, [(ToSender, ''clear_error'', JObj [(''message'', JStr msg_only_teacher)])])
      else if fault then
        (s, d, [(ToSender, ''clear_error'', JObj [(''message'', JStr msg_clear_failed)])])
      else
        (s, delete_all_drawings d,
         [(ToAll, ''clear'', JUndefined), (ToAll, ''notification'', cleared_notification ts s)]))"

definition left_notice :: "string \<Rightarrow> socket \<Rightarrow> emit" where
  "left_notice ts s =
     (ToOthers, ''user_left'',
        JObj [(''username'', get (userData s) ''username''), (''role'', get (userData s) ''role''),
              (''message'', JStr (to_js_string (get (userData s) ''username'') @ left_suffix)),
              (''timestamp'', JStr ts)])"

definition disconnect ::
  "bool \<Rightarrow> session list option \<Rightarrow> string \<Rightarrow> socket \<Rightarrow> db \<Rightarrow> socket \<times> db \<times> emit list" where
  "disconnect fault q ts s d =
     (if truthy (userData s) then
        (s, (if fault then d else delete_session (socket_id s) d),
         left_notice ts s # updateOnlineUsers q)
      else (s, d, []))"

section \<open>The HTTP handlers of server.js\<close>

record response =
  status :: nat
  body :: jsval

definition failure :: "nat \<Rightarrow> string \<Rightarrow> response" where
  "failure code m = \<lparr>status = code, body = JObj [(''success'', JBool False), (''error'', JStr m)]\<rparr>"

definition success :: response where
  "success = \<lparr>status = 200, body = JObj [(''success'', JBool True)]\<rparr>"

text \<open>
  \<open>DELETE /api/drawing/:id\<close>. \<open>ident\<close> is the path parameter, a string; \<open>req_body\<close> is the
  parsed JSON body, from which \<open>userId\<close>, \<open>role\<close> and \<open>owner\<close> are read (a request
  without a body has the empty object, as \<open>express.json\<close> leaves it). \<open>io.emit\<close> has no
  sender: its scope is \<open>ToAll\<close>.
\<close>

definition api_delete_drawing ::
  "bool \<Rightarrow> string \<Rightarrow> jsval \<Rightarrow> db \<Rightarrow> response \<times> db \<times> emit list" where
  "api_delete_drawing fault ident req_body d =
     (if ident = [] then (failure 400 ''Missing drawing ID'', d, [])
      else if \<not> strict_eq (get req_body ''role'') (JStr Administrator) \<and>
              \<not> strict_eq (get req_body ''userId'') (get req_body ''owner'') then
        (failure 403 msg_no_delete_rights, d, [])
      else if fault then (failure 500 ''Database error'', d, [])
      else if delete_changes (JStr ident) d = 0 then
        (failure 404 ''Drawing not found'', delete_drawing (JStr ident) d, [])
      else (success, delete_drawing (JStr ident) d, [(ToAll, ''textDelete'', JStr ident)]))"

text \<open>\<open>DELETE /api/clear\<close>\<close>

definition api_clear :: "bool \<Rightarrow> jsval \<Rightarrow> db \<Rightarrow> response \<times> db \<times> emit list" where
  "api_clear fault req_body d =
     (if \<not> strict_eq (get req_body ''role'') (JStr Administrator) then
        (failure 403 msg_only_teacher, d, [])
      else if fault then (failure 500 ''Database error'', d, [])
      else (success, delete_all_drawings d, [(ToAll, ''clear'', JUndefined)]))"

text \<open>\<open>POST /api/save\<close>\<close>

definition api_save :: "bool \<Rightarrow> string \<Rightarrow> jsval \<Rightarrow> db \<Rightarrow> response \<times> db \<times> emit list" where
  "api_save fault now req_body d =
     (if \<not> truthy (get req_body ''type'') \<or> \<not> truthy (get req_body ''data'') then
        (failure 400 ''Missing required fields'', d, [])
      else if fault then (failure 500 ''Database error'', d, [])
      else
        (\<lparr>status = 200,
          body = JObj [(''success'', JBool True), (''id'', JNum (int (Suc (drawings_seq d))))]\<rparr>,
         insert_drawing now (get req_body ''type'') (stringify (get req_body ''data''))
           (if truthy (get req_body ''userId'') then get req_body ''userId'' else JStr ''unknown'') d,
         []))"

text \<open>
  \<open>GET /api/drawings\<close>. \<open>parsed_limit\<close> and \<open>parsed_offset\<close> are what \<open>parseInt\<close> makes
  of the two query parameters (\<open>None\<close> for \<open>NaN\<close>; an infinite value behaves as any
  value out of the range of \<open>LIMIT\<close>). The query fails, and the answer is 500, on a
  storage fault and when the limit or the offset is out of that range.
\<close>

definition drawing_json :: "drawing \<Rightarrow> jsval" where
  "drawing_json r =
     JObj [(''id'', JNum (int (drawings_id r))), (''type'', drawings_type r),
           (''data'', drawings_data r), (''user_id'', drawings_user_id r),
           (''created_at'', JStr (drawings_created_at r))]"

definition page_limit :: "int option \<Rightarrow> int" where
  "page_limit parsed_limit = (case parsed_limit of None \<Rightarrow> 1000 | Some n \<Rightarrow> if n = 0 then 1000 else n)"

definition page_offset :: "int option \<Rightarrow> int" where
  "page_offset parsed_offset = (case parsed_offset of None \<Rightarrow> 0 | Some n \<Rightarrow> n)"

definition listed :: "int option \<Rightarrow> int option \<Rightarrow> db \<Rightarrow> drawing list" where
  "listed parsed_limit parsed_offset d =
     limit_offset (page_limit parsed_limit) (page_offset parsed_offset)
       (order_by_created_at (drawings d))"

definition api_drawings :: "bool \<Rightarrow> int option \<Rightarrow> int option \<Rightarrow> db \<Rightarrow> response" where
  "api_drawings fault parsed_limit parsed_offset d =
     (if fault \<or> \<not> limit_range (page_limit parsed_limit) \<or> \<not> limit_range (page_offset parsed_offset) then
        \<lparr>status = 500, body = JObj [(''error'', JStr ''Failed to fetch drawings'')]\<rparr>
      else
        \<lparr>status = 200, body = JArr (map drawing_json (listed parsed_limit parsed_offset d))\<rparr>)"

text \<open>The hourly sweep of sessions older than \<open>cutoff\<close>.\<close>

definition sweep :: "bool \<Rightarrow> session list option \<Rightarrow> string \<Rightarrow> db \<Rightarrow> db \<times> emit list" where
  "sweep fault q cutoff d =
     (if fault then (d, [])
      else
        (delete_old_sessions cutoff d,
         if length (filter (\<lambda>r. sessions_connected_at r < cutoff) (user_sessions d)) > 0
         then updateOnlineUsers q else []))"

section \<open>The server as a transition system\<close>

text \<open>
  The state of the running server.js: the connected sockets and the database. An event
  names the socket it arrives on and carries what the environment decides. An event for a
  socket that is not connected changes nothing; socket ids are the transport's and are
  never shared by two connections.
\<close>

record system =
  sockets :: "socket list"
  database :: db

datatype event =
    Connection string
  | On_user_join string bool "session list option" string string jsval
  | On_drawing string bool string string jsval
  | On_text string bool string string jsval
  | On_textUpdate string bool string jsval
  | On_textMove string bool string jsval
  | On_textDelete string bool jsval
  | On_clear string bool string
  | On_disconnect string bool "session list option" string
  | Sweep bool "session list option" string
  | Api_delete_drawing bool string jsval
  | Api_clear bool jsval
  | Api_save bool string jsval

definition on_socket ::
  "string \<Rightarrow> (socket \<Rightarrow> db \<Rightarrow> socket \<times> db \<times> emit list) \<Rightarrow> system \<Rightarrow> system \<times> emit list" where
  "on_socket sid h st =
     (case find (\<lambda>s. socket_id s = sid) (sockets st) of
        None \<Rightarrow> (st, [])
      | Some s \<Rightarrow>
          (case h s (database st) of
             (s', d', es) \<Rightarrow>
               (st\<lparr>sockets := map (\<lambda>x. if socket_id x = sid then s' else x) (sockets st),
                   database := d'\<rparr>, es)))"

definition on_request :: "(db \<Rightarrow> response \<times> db \<times> emit list) \<Rightarrow> system \<Rightarrow> system \<times> emit list" where
  "on_request h st = (case h (database st) of (r, d', es) \<Rightarrow> (st\<lparr>database := d'\<rparr>, es))"

fun step :: "system \<Rightarrow> event \<Rightarrow> system \<times> emit list" where
  "step st (Connection sid) =
     (if sid \<in> set (map socket_id (sockets st)) then (st, [])
      else (st\<lparr>sockets := sockets st @ [\<lparr>socket_id = sid, userData = JUndefined\<rparr>]\<rparr>, []))"
| "step st (On_user_join sid fault q now ts uData) = on_socket sid (user_join fault q now ts uData) st"
| "step st (On_drawing sid fault now ts dat) = on_socket sid (drawing fault now ts dat) st"
| "step st (On_text sid fault now ts dat) = on_socket sid (text_created fault now ts dat) st"
| "step st (On_textUpdate sid fault ts dat) = on_socket sid (textUpdate fault ts dat) st"
| "step st (On_textMove sid fault ts dat) = on_socket sid (textMove fault ts dat) st"
| "step st (On_textDelete sid fault dat) = on_socket sid (textDelete fault dat) st"
| "step st (On_clear sid fault ts) = on_socket sid (clear fault ts) st"
| "step st (On_disconnect sid fault q ts) =
     (case on_socket sid (disconnect fault q ts) st of
        (st', es) \<Rightarrow> (st'\<lparr>sockets := filter (\<lambda>s. socket_id s \<noteq> sid) (sockets st')\<rparr>, es))"
| "step st (Sweep fault q cutoff) =
     (case sweep fault q cutoff (database st) of (d', es) \<Rightarrow> (st\<lparr>database := d'\<rparr>, es))"
| "step st (Api_delete_drawing fault ident req_body) = on_request (api_delete_drawing fault ident req_body) st"
| "step st (Api_clear fault req_body) = on_request (api_clear fault req_body) st"
| "step st (Api_save fault now req_body) = on_request (api_save fault now req_body) st"

fun run :: "system \<Rightarrow> event list \<Rightarrow> system" where
  "run st [] = st"
| "run st (e # es) = run (fst (step st e)) es"

text \<open>The \<open>UNIQUE\<close> constraint on \<open>user_sessions.socket_id\<close>.\<close>

definition sessions_unique :: "db \<Rightarrow> bool" where
  "sessions_unique d \<longleftrightarrow> distinct (map sessions_socket_id (user_sessions d))"

section \<open>The second server file\<close>

text \<open>
  The repository holds a second, shorter version of the server. Its handlers do not
  validate their argument, so reading a property of a missing argument throws: an outcome
  is either \<open>Done\<close> or \<open>TypeError\<close>, each with the state reached and the messages sent
  before it.
\<close>

datatype outcome =
    Done socket db "emit list"
  | TypeError socket db "emit list"

text \<open>\<open>v.k = x\<close>: sets the property of an object, is ignored on a primitive value.\<close>

fun assign_prop :: "string \<Rightarrow> jsval \<Rightarrow> jsval \<Rightarrow> jsval" where
  "assign_prop k x (JObj kvs) = JObj (set_prop k x kvs)"
| "assign_prop k x v = v"

definition part0_user_join ::
  "bool \<Rightarrow> session list option \<Rightarrow> string \<Rightarrow> string \<Rightarrow> jsval \<Rightarrow> socket \<Rightarrow> db \<Rightarrow> outcome" where
  "part0_user_join fault q now ts uData s d =
     (if nullish uData then TypeError (s\<lparr>userData := uData\<rparr>) d []
      else
        let ud = assign_prop ''socketId'' (JStr (socket_id s)) uData in
        Done (s\<lparr>userData := ud\<rparr>)
          (if fault then d
           else case insert_session now (get ud ''username'') (get ud ''role'') (socket_id s) d of
                  None \<Rightarrow> d
                | Some d' \<Rightarrow> d')
          ((ToOthers, ''user_joined'',
              JObj [(''username'', get ud ''username''), (''role'', get ud ''role''),
                    (''message'', JStr (to_js_string (get ud ''username'') @ joined_suffix)),
                    (''timestamp'', JStr ts)])
           # updateOnlineUsers q))"

definition part0_drawing :: "bool \<Rightarrow> string \<Rightarrow> string \<Rightarrow> jsval \<Rightarrow> socket \<Rightarrow> db \<Rightarrow> outcome" where
  "part0_drawing fault now ts dat s d =
     (if \<not> truthy (userData s) then Done s d []
      else
        Done s
          (if fault then d
           else insert_drawing now (JStr ''drawing'') (stringify (stamped ts s dat))
                  (get (userData s) ''username'') d)
          [(ToOthers, ''drawing'', stamped ts s dat)])"

definition part0_text :: "bool \<Rightarrow> string \<Rightarrow> string \<Rightarrow> jsval \<Rightarrow> socket \<Rightarrow> db \<Rightarrow> outcome" where
  "part0_text fault now ts dat s d =
     (if \<not> truthy (userData s) then Done s d []
      else
        Done s
          (if fault then d
           else insert_drawing now (JStr ''text'') (stringify (stamped ts s dat))
                  (get (userData s) ''username'') d)
          [(ToOthers, ''text'', stamped ts s dat)])"

text \<open>
  In the three handlers below \<open>data.owner\<close> is read only when the role is not the
  Administrator's (\<open>||\<close> is short-circuit), and \<open>data.id\<close> is read when the arguments of
  the statement are built: each read throws on a missing \<open>data\<close>.
\<close>

definition part0_textUpdate :: "bool \<Rightarrow> string \<Rightarrow> jsval \<Rightarrow> socket \<Rightarrow> db \<Rightarrow> outcome" where
  "part0_textUpdate fault ts dat s d =
     (if \<not> truthy (userData s) then Done s d []
      else if \<not> strict_eq (get (userData s) ''role'') (JStr Administrator) \<and> nullish dat then
        TypeError s d []
      else if \<not> canEdit (userData s) dat then Done s d []
      else if nullish dat then TypeError s d []
      else
        Done s
          (if fault then d else update_drawing (stringify (stamped ts s dat)) (get dat ''id'') d)
          [(ToOthers, ''textUpdate'', stamped ts s dat)])"

definition part0_textMove :: "bool \<Rightarrow> string \<Rightarrow> jsval \<Rightarrow> socket \<Rightarrow> db \<Rightarrow> outcome" where
  "part0_textMove fault ts dat s d =
     (if \<not> truthy (userData s) then Done s d []
      else if \<not> strict_eq (get (userData s) ''role'') (JStr Administrator) \<and> nullish dat then
        TypeError s d []
      else if \<not> canMove (userData s) dat then Done s d []
      else if nullish dat then TypeError s d []
      else
        Done s
          (if fault then d else update_drawing (stringify (stamped ts s dat)) (get dat ''id'') d)
          [(ToOthers, ''textMove'', stamped ts s dat)])"

definition part0_textDelete :: "bool \<Rightarrow> jsval \<Rightarrow> socket \<Rightarrow> db \<Rightarrow> outcome" where
  "part0_textDelete fault dat s d =
     (if \<not> truthy (userData s) then Done s d []
      else if \<not> strict_eq (get (userData s) ''role'') (JStr Administrator) \<and> nullish dat then
        TypeError s d []
      else if \<not> canDelete (userData s) dat then Done s d []
      else if nullish dat then TypeError s d []
      else
        Done s
          (if fault then d else delete_drawing (get dat ''id'') d)
          [(ToOthers, ''textDelete'', get dat ''id'')])"

definition part0_clear :: "bool \<Rightarrow> string \<Rightarrow> socket \<Rightarrow> db \<Rightarrow> outcome" where
  "part0_clear fault ts s d =
     (if \<not> truthy (userData s) then Done s d []
      else if \<not> strict_eq (get (userData s) ''role'') (JStr Administrator) then
        Done s d [(ToSender, ''clear_error'', JObj [(''message'', JStr msg_only_teacher)])]
      else if fault then
        Done s d [(ToSender, ''clear_error'', JObj [(''message'', JStr msg_clear_failed)])]
      else
        Done s (delete_all_drawings d)
          [(ToAll, ''clear'', JUndefined), (ToOthers, ''notification'', cleared_notification ts s)])"

definition part0_disconnect ::
  "bool \<Rightarrow> session list option \<Rightarrow> string \<Rightarrow> socket \<Rightarrow> db \<Rightarrow> outcome" where
  "part0_disconnect fault q ts s d =
     (if truthy (userData s) then
        Done s (if fault then d else delete_session (socket_id s) d)
          (left_notice ts s # updateOnlineUsers q)
      else Done s d [])"

text \<open>
  \<open>DELETE /api/drawing/:id\<close> of the second file; \<open>err\<close> is the error of the statement, if
  any, whose message the response repeats.
\<close>

definition part0_api_delete_drawing ::
  "string option \<Rightarrow> string \<Rightarrow> jsval \<Rightarrow> db \<Rightarrow> response \<times> db \<times> emit list" where
  "part0_api_delete_drawing err ident req_body d =
     (if \<not> strict_eq (get req_body ''role'') (JStr Administrator) \<and>
         \<not> strict_eq (get req_body ''userId'') (get req_body ''owner'') then
        (failure 403 msg_no_delete_rights, d, [])
      else case err of
             Some m \<Rightarrow> (failure 500 m, d, [])
           | None \<Rightarrow> (success, delete_drawing (JStr ident) d, []))"

text \<open>
  \<open>GET /api/drawings\<close> of the second file: the whole table, no window; \<open>err\<close> is the
  error of the query, if any.
\<close>

definition part0_api_drawings :: "string option \<Rightarrow> db \<Rightarrow> response" where
  "part0_api_drawings err d =
     (case err of
        Some m \<Rightarrow> \<lparr>status = 500, body = JObj [(''error'', JStr m)]\<rparr>
      | None \<Rightarrow> \<lparr>status = 200, body = JArr (map drawing_json (order_by_created_at (drawings d)))\<rparr>)"

fun outcome_socket :: "outcome \<Rightarrow> socket" where
  "outcome_socket (Done s d es) = s"
| "outcome_socket (TypeError s d es) = s"

fun outcome_db :: "outcome \<Rightarrow> db" where
  "outcome_db (Done s d es) = d"
| "outcome_db (TypeError s d es) = d"

fun outcome_emits :: "outcome \<Rightarrow> emit list" where
  "outcome_emits (Done s d es) = es"
| "outcome_emits (TypeError s d es) = es"

section \<open>Example states\<close>

text \<open>
  The scenario of the specification: Ann and Bob are participants of an ordinary role,
  Cara is an Administrator, and the board holds one text note that Ann created.
\<close>

definition ann :: socket where
  "ann = \<lparr>socket_id = ''s1'',
           userData = JObj [(''username'', JStr ''Ann''), (''role'', JStr ''Student''),
                            (''socketId'', JStr ''s1''),
                            (''joinedAt'', JStr ''2024-01-01T10:00:00.000Z'')]\<rparr>"

definition bob :: socket where
  "bob = \<lparr>socket_id = ''s2'',
           userData = JObj [(''username'', JStr ''Bob''), (''role'', JStr ''Student''),
                            (''socketId'', JStr ''s2''),
                            (''joinedAt'', JStr ''2024-01-01T10:00:01.000Z'')]\<rparr>"

definition cara :: socket where
  "cara = \<lparr>socket_id = ''s3'',
            userData = JObj [(''username'', JStr ''Cara''), (''role'', JStr Administrator),
                             (''socketId'', JStr ''s3''),
                             (''joinedAt'', JStr ''2024-01-01T10:00:02.000Z'')]\<rparr>"

definition note1 :: drawing where
  "note1 = \<lparr>drawings_id = 1, drawings_type = JStr ''text'',
             drawings_data =
               JObj [(''id'', JNum 1), (''text'', JStr ''hello''), (''owner'', JStr ''Ann''),
                     (''timestamp'', JStr ''2024-01-01T10:00:05.000Z''), (''userId'', JStr ''Ann'')],
             drawings_user_id = JStr ''Ann'', drawings_created_at = ''2024-01-01 10:00:05''\<rparr>"

text \<open>
  The conversions of the example databases. A text equals the integer that it spells as
  a decimal numeral: blanks around it, a sign, a fraction and an exponent are read,
  and the value has to be whole (\<open>'1'\<close>, \<open>' 1'\<close>, \<open>'+1'\<close>, \<open>'1.0'\<close> and \<open>'1e0'\<close> all equal
  1; \<open>'1.5'\<close>, \<open>'0x1'\<close> and \<open>''\<close> equal no integer). The value is computed exactly,
  where SQLite rounds a numeral of more than fifteen digits to a floating-point value.
  A floating-point value is written with one decimal place, as SQLite writes a whole
  value below \<open>10\<^sup>1\<^sup>5\<close>. The examples bind short numerals only.
\<close>

definition is_digit :: "char \<Rightarrow> bool" where
  "is_digit c \<longleftrightarrow> 48 \<le> (of_char c :: nat) \<and> (of_char c :: nat) \<le> 57"

definition is_space :: "char \<Rightarrow> bool" where
  "is_space c \<longleftrightarrow> (of_char c :: nat) = 32 \<or> (9 \<le> (of_char c :: nat) \<and> (of_char c :: nat) \<le> 13)"

definition trim :: "string \<Rightarrow> string" where
  "trim s = rev (dropWhile is_space (rev (dropWhile is_space s)))"

fun digits_value :: "nat \<Rightarrow> string \<Rightarrow> nat" where
  "digits_value acc [] = acc"
| "digits_value acc (c # cs) = digits_value (10 * acc + (of_char c - 48)) cs"

fun unsigned :: "string \<Rightarrow> string" where
  "unsigned [] = []"
| "unsigned (c # cs) = (if c = CHR ''-'' \<or> c = CHR ''+'' then cs else c # cs)"

fun negative :: "string \<Rightarrow> bool" where
  "negative [] = False"
| "negative (c # cs) = (c = CHR ''-'')"

fun fraction :: "string \<Rightarrow> string" where
  "fraction [] = []"
| "fraction (c # cs) = (if c = CHR ''.'' then takeWhile is_digit cs else [])"

fun after_fraction :: "string \<Rightarrow> string" where
  "after_fraction [] = []"
| "after_fraction (c # cs) = (if c = CHR ''.'' then dropWhile is_digit cs else c # cs)"

fun exponent :: "string \<Rightarrow> int option" where
  "exponent [] = Some 0"
| "exponent (c # cs) =
     (if (c = CHR ''e'' \<or> c = CHR ''E'') \<and> unsigned cs \<noteq> [] \<and> list_all is_digit (unsigned cs)
      then Some ((if negative cs then - 1 else 1) * int (digits_value 0 (unsigned cs)))
      else None)"

text \<open>\<open>m \<times> 10\<^sup>k\<close>, when it is whole.\<close>

definition scaled :: "nat \<Rightarrow> int \<Rightarrow> int option" where
  "scaled m k =
     (if 0 \<le> k then Some (int (m * 10 ^ nat k))
      else if m mod 10 ^ nat (- k) = 0 then Some (int (m div 10 ^ nat (- k))) else None)"

definition numeral_integer :: "string \<Rightarrow> int option" where
  "numeral_integer s =
     (let t = unsigned (trim s);
          whole = takeWhile is_digit t;
          frac = fraction (dropWhile is_digit t)
      in if whole @ frac = [] then None
         else case exponent (after_fraction (dropWhile is_digit t)) of
                None \<Rightarrow> None
              | Some e \<Rightarrow>
                  map_option (\<lambda>n. if negative (trim s) then - n else n)
                    (scaled (digits_value 0 (whole @ frac)) (e - int (length frac))))"

definition one_decimal :: "int \<Rightarrow> string" where
  "one_decimal n = to_js_string (JNum n) @ ''.0''"

definition board1 :: db where
  "board1 = \<lparr>drawings = [note1], drawings_seq = 1, user_sessions = [], user_sessions_seq = 0,
              integer_of_text = numeral_integer, text_of_real = one_decimal\<rparr>"

text \<open>Bob's request on Ann's note, naming himself as the owner.\<close>

definition bob_request :: jsval where
  "bob_request = JObj [(''id'', JNum 1), (''owner'', JStr ''Bob'')]"

text \<open>A request for an id that no row has.\<close>

definition ann_request :: jsval where
  "ann_request = JObj [(''id'', JNum 7), (''text'', JStr ''bye''), (''owner'', JStr ''Ann'')]"

text \<open>Ann's edit of her own note.\<close>

definition ann_edit :: jsval where
  "ann_edit = JObj [(''id'', JNum 1), (''text'', JStr ''hello again''), (''owner'', JStr ''Ann'')]"

text \<open>Ann's edit of her own note, the id written as the text \<open>'1.0'\<close>.\<close>

definition ann_edit_text :: jsval where
  "ann_edit_text = JObj [(''id'', JStr ''1.0''), (''text'', JStr ''hello again''), (''owner'', JStr ''Ann'')]"

definition a_stroke :: jsval where
  "a_stroke =
     JObj [(''from'', JObj [(''x'', JNum 0), (''y'', JNum 0)]),
           (''to'', JObj [(''x'', JNum 5), (''y'', JNum 8)]), (''color'', JStr ''#000000'')]"

text \<open>A second note, created in the same second as the first.\<close>

definition note2 :: drawing where
  "note2 = \<lparr>drawings_id = 2, drawings_type = JStr ''text'',
             drawings_data =
               JObj [(''id'', JNum 2), (''text'', JStr ''world''), (''owner'', JStr ''Bob''),
                     (''timestamp'', JStr ''2024-01-01T10:00:05.500Z''), (''userId'', JStr ''Bob'')],
             drawings_user_id = JStr ''Bob'', drawings_created_at = ''2024-01-01 10:00:05''\<rparr>"

definition board2 :: db where
  "board2 = \<lparr>drawings = [note1, note2], drawings_seq = 2, user_sessions = [], user_sessions_seq = 0,
              integer_of_text = numeral_integer, text_of_real = one_decimal\<rparr>"

text \<open>
  A third note, stamped four seconds before the first two: the clock of the server was
  set back between the second insertion and the third.
\<close>

definition note3 :: drawing where
  "note3 = \<lparr>drawings_id = 3, drawings_type = JStr ''text'',
             drawings_data =
               JObj [(''id'', JNum 3), (''text'', JStr ''again''), (''owner'', JStr ''Ann''),
                     (''timestamp'', JStr ''2024-01-01T10:00:01.000Z''), (''userId'', JStr ''Ann'')],
             drawings_user_id = JStr ''Ann'', drawings_created_at = ''2024-01-01 10:00:01''\<rparr>"

definition board3 :: db where
  "board3 = \<lparr>drawings = [note1, note2, note3], drawings_seq = 3, user_sessions = [],
              user_sessions_seq = 0, integer_of_text = numeral_integer, text_of_real = one_decimal\<rparr>"

definition cara_body :: jsval where
  "cara_body = JObj [(''userId'', JStr ''Cara''), (''role'', JStr Administrator), (''owner'', JStr ''Ann'')]"

definition bob_body :: jsval where
  "bob_body = JObj [(''userId'', JStr ''Bob''), (''role'', JStr ''Student''), (''owner'', JStr ''Ann'')]"

text \<open>A join request with an empty username, and an ordinary one.\<close>

definition nameless :: jsval where
  "nameless = JObj [(''username'', JStr []), (''role'', JStr ''Student'')]"

definition ann_join :: jsval where
  "ann_join = JObj [(''username'', JStr ''Ann''), (''role'', JStr ''Student'')]"

definition fresh_socket :: socket where
  "fresh_socket = \<lparr>socket_id = ''s9'', userData = JUndefined\<rparr>"

definition empty_db :: db where
  "empty_db = \<lparr>drawings = [], drawings_seq = 0, user_sessions = [], user_sessions_seq = 0,
                integer_of_text = numeral_integer, text_of_real = one_decimal\<rparr>"

text \<open>
  The order the specification asks of the item list: ascending \<open>created_at\<close>, and
  ascending id among the rows of one \<open>created_at\<close>.
\<close>

definition ascending_created_at_then_id :: "drawing list \<Rightarrow> bool" where
  "ascending_created_at_then_id rows \<longleftrightarrow>
     sorted_wrt (\<lambda>a b. drawings_created_at a < drawings_created_at b \<or>
                       (drawings_created_at a = drawings_created_at b \<and> drawings_id a \<le> drawings_id b))
       rows"

section \<open>Properties\<close>

subsection \<open>Auxiliary facts\<close>

lemma strict_eq_primitive: "is_primitive a \<Longrightarrow> strict_eq a b \<longleftrightarrow> a = b"
  by (cases a) simp_all

lemma strict_eq_sym_primitive: "is_primitive b \<Longrightarrow> strict_eq a b \<longleftrightarrow> a = b"
  by (cases a; cases b) auto

lemma strict_eq_Administrator: "strict_eq v (JStr Administrator) \<longleftrightarrow> v = JStr Administrator"
  by (simp add: strict_eq_sym_primitive)

lemma numeral_integer_spellings:
  "numeral_integer ''1'' = Some 1" "numeral_integer '' 1'' = Some 1"
  "numeral_integer ''1 '' = Some 1" "numeral_integer ''+1'' = Some 1"
  "numeral_integer ''1.0'' = Some 1" "numeral_integer ''1e0'' = Some 1"
  "numeral_integer ''7'' = Some 7" "numeral_integer ''-1'' = Some (- 1)"
  "numeral_integer ''1.5'' = None" "numeral_integer ''0x1'' = None"
  "numeral_integer [] = None" "numeral_integer ''[object Object]'' = None"
  by (simp_all add: numeral_integer_def trim_def is_space_def is_digit_def scaled_def)

lemma received_Nil: "received sender [] c = []"
  by (simp add: received_def)

lemma received_Cons:
  "received sender ((t, m) # es) c =
     (if delivered_to t sender c then m # received sender es c else received sender es c)"
  by (simp add: received_def)

lemma canMove_eq_canEdit: "canMove ud dat = canEdit ud dat"
  by (simp add: canMove_def canEdit_def)

lemma delete_drawing_no_match:
  "r \<in> set (drawings (delete_drawing key d)) \<Longrightarrow> \<not> id_matches d key r"
  by (simp add: delete_drawing_def)

lemma delete_drawing_keeps_others:
  "r \<in> set (drawings d) \<Longrightarrow> \<not> id_matches d key r \<Longrightarrow> r \<in> set (drawings (delete_drawing key d))"
  by (simp add: delete_drawing_def)

lemma delete_drawing_absent:
  assumes "\<forall>r \<in> set (drawings d). \<not> id_matches d key r"
  shows "delete_drawing key d = d"
proof -
  have "filter (\<lambda>r. \<not> id_matches d key r) (drawings d) = drawings d"
    using assms by (simp add: filter_id_conv)
  then show ?thesis by (simp add: delete_drawing_def)
qed

lemma delete_changes_zero:
  "delete_changes key d = 0 \<longleftrightarrow> (\<forall>r \<in> set (drawings d). \<not> id_matches d key r)"
  by (simp add: delete_changes_def filter_empty_conv)

lemma update_drawing_length: "length (drawings (update_drawing dat key d)) = length (drawings d)"
  by (simp add: update_drawing_def)

lemma update_drawing_nth:
  assumes "i < length (drawings d)"
  shows "drawings (update_drawing dat key d) ! i =
           (if id_matches d key (drawings d ! i) then (drawings d ! i)\<lparr>drawings_data := dat\<rparr>
            else drawings d ! i)"
  using assms by (simp add: update_drawing_def)

lemma update_drawing_absent:
  assumes "\<forall>r \<in> set (drawings d). \<not> id_matches d key r"
  shows "update_drawing dat key d = d"
proof -
  have "map (\<lambda>r. if id_matches d key r then r\<lparr>drawings_data := dat\<rparr> else r) (drawings d) = drawings d"
    using assms by (induction "drawings d" arbitrary: d) (auto simp: map_idI)
  then show ?thesis by (simp add: update_drawing_def)
qed

subsection \<open>The permission check\<close>

text \<open>
  C1. An Administrator passes the permission check of \<open>textUpdate\<close>, \<open>textMove\<close> and
  \<open>textDelete\<close> whatever the owner of the item; a participant of any other role whose
  username is \<open>U\<close> (a string, or any other value that is not an object) passes it
  exactly when the owner field of the event is \<open>U\<close>.
\<close>

theorem permission_check_admin_or_owner:
  "(get ud ''role'' = JStr Administrator \<longrightarrow>
      canEdit ud d \<and> canMove ud d \<and> canDelete ud d) \<and>
   (get ud ''role'' \<noteq> JStr Administrator \<and> get ud ''username'' = U \<and> is_primitive U \<longrightarrow>
      (canEdit ud d \<longleftrightarrow> get d ''owner'' = U) \<and>
      (canMove ud d \<longleftrightarrow> get d ''owner'' = U) \<and>
      (canDelete ud d \<longleftrightarrow> get d ''owner'' = U))"
proof (intro conjI impI)
  assume adm: "get ud ''role'' = JStr Administrator"
  show "canEdit ud d" "canMove ud d" "canDelete ud d"
    using adm by (simp_all add: canEdit_def canMove_def canDelete_def)
next
  assume std: "get ud ''role'' \<noteq> JStr Administrator \<and> get ud ''username'' = U \<and> is_primitive U"
  have role: "\<not> strict_eq (get ud ''role'') (JStr Administrator)"
    using std by (simp add: strict_eq_sym_primitive)
  have name: "strict_eq (get ud ''username'') (get d ''owner'') \<longleftrightarrow> get d ''owner'' = U"
    using std by (auto simp: strict_eq_primitive)
  show "canEdit ud d \<longleftrightarrow> get d ''owner'' = U"
    by (simp add: canEdit_def role name)
  show "canMove ud d \<longleftrightarrow> get d ''owner'' = U"
    by (simp add: canMove_def role name)
  show "canDelete ud d \<longleftrightarrow> get d ''owner'' = U"
    by (simp add: canDelete_def role name)
qed

theorem permission_check_admin_or_owner_witness:
  "get (userData cara) ''role'' = JStr Administrator \<and>
   canEdit (userData cara) bob_request \<and> canMove (userData cara) bob_request \<and>
   canDelete (userData cara) bob_request \<and>
   get (userData bob) ''role'' \<noteq> JStr Administrator \<and>
   get (userData bob) ''username'' = JStr ''Bob'' \<and> is_primitive (JStr ''Bob'') \<and>
   get bob_request ''owner'' = JStr ''Bob'' \<and> canEdit (userData bob) bob_request \<and>
   get (userData ann) ''role'' \<noteq> JStr Administrator \<and>
   get (userData ann) ''username'' = JStr ''Ann'' \<and> \<not> canDelete (userData ann) bob_request"
proof -
  have c: "get (userData cara) ''role'' = JStr Administrator"
    by (simp add: cara_def)
  have b: "get (userData bob) ''role'' \<noteq> JStr Administrator \<and>
           get (userData bob) ''username'' = JStr ''Bob'' \<and> is_primitive (JStr ''Bob'')"
    by (simp add: bob_def Administrator_def)
  have a: "get (userData ann) ''role'' \<noteq> JStr Administrator \<and>
           get (userData ann) ''username'' = JStr ''Ann'' \<and> is_primitive (JStr ''Ann'')"
    by (simp add: ann_def Administrator_def)
  have o: "get bob_request ''owner'' = JStr ''Bob''"
    by (simp add: bob_request_def)
  show ?thesis
    using c b a o
      permission_check_admin_or_owner [where ud = "userData cara" and d = bob_request]
      permission_check_admin_or_owner [where ud = "userData bob" and U = "JStr ''Bob''" and d = bob_request]
      permission_check_admin_or_owner [where ud = "userData ann" and U = "JStr ''Ann''" and d = bob_request]
    by simp
qed

subsection \<open>Deleting a text\<close>

text \<open>
  C2, as the code has it. For a \<open>textDelete\<close> event with an id, from a connection that
  has joined, the permission decision compares the participant with the \<open>owner\<close> field of
  the request; the stored \<open>user_id\<close> of the item is not read, and the messages sent are
  the same whatever the store holds. When the check fails nothing is removed or
  broadcast; server.js sends an error notice to the originator alone, the second file
  sends nothing. When it passes, exactly the rows whose id the engine equates with the
  id of the request are removed, every other row and the sessions stay, and the id is
  broadcast to every connection but the originator; if the statement fails, the store
  is unchanged, the broadcast is sent all the same and the originator gets an error
  notice.
\<close>

theorem textDelete_checks_request_owner:
  assumes active: "truthy (userData s)"
    and valid: "truthy dat" "truthy (get dat ''id'')"
  shows
    "(canDelete (userData s) dat \<longleftrightarrow>
        get (userData s) ''role'' = JStr Administrator \<or>
        strict_eq (get (userData s) ''username'') (get dat ''owner'')) \<and>
     snd (snd (textDelete fault dat s d)) = snd (snd (textDelete fault dat s d')) \<and>
     (\<not> canDelete (userData s) dat \<longrightarrow>
        textDelete fault dat s d = (s, d, [error_notice msg_no_delete]) \<and>
        received (socket_id s) (snd (snd (textDelete fault dat s d))) c =
          (if c = socket_id s then [(''error'', JObj [(''message'', JStr msg_no_delete)])] else []) \<and>
        part0_textDelete fault dat s d = Done s d []) \<and>
     (canDelete (userData s) dat \<longrightarrow>
        textDelete False dat s d =
          (s, delete_drawing (get dat ''id'') d, [(ToOthers, ''textDelete'', get dat ''id'')]) \<and>
        part0_textDelete False dat s d =
          Done s (delete_drawing (get dat ''id'') d) [(ToOthers, ''textDelete'', get dat ''id'')] \<and>
        (\<forall>r \<in> set (drawings (delete_drawing (get dat ''id'') d)). \<not> id_matches d (get dat ''id'') r) \<and>
        received (socket_id s) (snd (snd (textDelete False dat s d))) c =
          (if c = socket_id s then [] else [(''textDelete'', get dat ''id'')]) \<and>
        textDelete True dat s d =
          (s, d, [(ToOthers, ''textDelete'', get dat ''id''), error_notice msg_delete_failed])) \<and>
     drawings (delete_drawing (get dat ''id'') d) =
       filter (\<lambda>r. \<not> id_matches d (get dat ''id'') r) (drawings d) \<and>
     user_sessions (delete_drawing (get dat ''id'') d) = user_sessions d \<and>
     drawings_seq (delete_drawing (get dat ''id'') d) = drawings_seq d"
proof -
  have nn: "\<not> nullish dat"
    using valid(1) by (cases dat) simp_all
  have decision: "canDelete (userData s) dat \<longleftrightarrow>
        get (userData s) ''role'' = JStr Administrator \<or>
        strict_eq (get (userData s) ''username'') (get dat ''owner'')"
    by (simp add: canDelete_def strict_eq_Administrator)
  have emits: "snd (snd (textDelete fault dat s d)) = snd (snd (textDelete fault dat s d'))"
    by (simp add: textDelete_def)
  have refused: "textDelete fault dat s d = (s, d, [error_notice msg_no_delete])"
    "received (socket_id s) (snd (snd (textDelete fault dat s d))) c =
          (if c = socket_id s then [(''error'', JObj [(''message'', JStr msg_no_delete)])] else [])"
    "part0_textDelete fault dat s d = Done s d []"
    if "\<not> canDelete (userData s) dat"
    using that active valid nn
    by (simp_all add: textDelete_def part0_textDelete_def error_notice_def received_def)
  have granted: "textDelete False dat s d =
          (s, delete_drawing (get dat ''id'') d, [(ToOthers, ''textDelete'', get dat ''id'')])"
    "part0_textDelete False dat s d =
          Done s (delete_drawing (get dat ''id'') d) [(ToOthers, ''textDelete'', get dat ''id'')]"
    "received (socket_id s) (snd (snd (textDelete False dat s d))) c =
          (if c = socket_id s then [] else [(''textDelete'', get dat ''id'')])"
    "textDelete True dat s d =
          (s, d, [(ToOthers, ''textDelete'', get dat ''id''), error_notice msg_delete_failed])"
    if "canDelete (userData s) dat"
    using that active valid nn
    by (simp_all add: textDelete_def part0_textDelete_def received_def)
  have gone: "\<forall>r \<in> set (drawings (delete_drawing (get dat ''id'') d)). \<not> id_matches d (get dat ''id'') r"
    by (simp add: delete_drawing_def)
  have exact: "drawings (delete_drawing (get dat ''id'') d) =
       filter (\<lambda>r. \<not> id_matches d (get dat ''id'') r) (drawings d)"
    "user_sessions (delete_drawing (get dat ''id'') d) = user_sessions d"
    "drawings_seq (delete_drawing (get dat ''id'') d) = drawings_seq d"
    by (simp_all add: delete_drawing_def)
  show ?thesis
    using decision emits refused granted gone exact by blast
qed

theorem textDelete_checks_request_owner_witness:
  "truthy (userData bob) \<and> truthy bob_request \<and> truthy (get bob_request ''id'') \<and>
   canDelete (userData bob) bob_request \<and>
   textDelete False bob_request bob board2 =
     (bob, delete_drawing (JNum 1) board2, [(ToOthers, ''textDelete'', JNum 1)]) \<and>
   drawings (delete_drawing (JNum 1) board2) = [note2] \<and>
   received (socket_id bob) (snd (snd (textDelete False bob_request bob board2))) (socket_id ann) =
     [(''textDelete'', JNum 1)] \<and>
   truthy (userData ann) \<and> \<not> canDelete (userData ann) bob_request \<and>
   textDelete False bob_request ann board2 = (ann, board2, [error_notice msg_no_delete]) \<and>
   received (socket_id ann) (snd (snd (textDelete False bob_request ann board2))) (socket_id bob) = []"
proof -
  have hb: "truthy (userData bob)" "truthy bob_request" "truthy (get bob_request ''id'')"
    by (simp_all add: bob_def bob_request_def)
  have ha: "truthy (userData ann)"
    by (simp add: ann_def)
  have cb: "canDelete (userData bob) bob_request"
    by (simp add: canDelete_def bob_def bob_request_def)
  have ca: "\<not> canDelete (userData ann) bob_request"
    by (simp add: canDelete_def ann_def bob_request_def Administrator_def)
  have i: "get bob_request ''id'' = JNum 1"
    by (simp add: bob_request_def)
  have ids: "socket_id ann \<noteq> socket_id bob"
    by (simp add: ann_def bob_def)
  have kept: "filter (\<lambda>r. \<not> id_matches board2 (JNum 1) r) (drawings board2) = [note2]"
    by (simp add: board2_def note1_def note2_def id_matches_def)
  note B = textDelete_checks_request_owner [OF hb, where d = board2 and d' = board2
      and c = "socket_id ann" and fault = False]
  note A = textDelete_checks_request_owner [OF ha hb(2,3), where d = board2 and d' = board2
      and c = "socket_id bob" and fault = False]
  from B cb have b1: "textDelete False bob_request bob board2 =
      (bob, delete_drawing (get bob_request ''id'') board2,
       [(ToOthers, ''textDelete'', get bob_request ''id'')])"
    by blast
  from B cb have b2:
    "received (socket_id bob) (snd (snd (textDelete False bob_request bob board2))) (socket_id ann) =
       (if socket_id ann = socket_id bob then [] else [(''textDelete'', get bob_request ''id'')])"
    by blast
  from B have b3: "drawings (delete_drawing (get bob_request ''id'') board2) =
       filter (\<lambda>r. \<not> id_matches board2 (get bob_request ''id'') r) (drawings board2)"
    by blast
  from A ca have a1: "textDelete False bob_request ann board2 = (ann, board2, [error_notice msg_no_delete])"
    by blast
  from A ca have a2:
    "received (socket_id ann) (snd (snd (textDelete False bob_request ann board2))) (socket_id bob) =
       (if socket_id bob = socket_id ann then [(''error'', JObj [(''message'', JStr msg_no_delete)])]
        else [])"
    by blast
  have b4: "drawings (delete_drawing (JNum 1) board2) = [note2]"
    using b3 kept by (simp add: i)
  show ?thesis
    unfolding b2 a2 unfolding b1 a1 using hb ha cb ca ids b4 by (simp add: i)
qed

text \<open>
  C2 as stated fails: Bob, who is no Administrator, deletes the note whose stored
  \<open>user_id\<close> is Ann by naming himself in the \<open>owner\<close> field of the request; his own note
  stays.
\<close>

theorem textDelete_ignores_stored_owner:
  "drawings_user_id note1 = JStr ''Ann'' \<and> drawings board2 = [note1, note2] \<and>
   get (userData bob) ''username'' = JStr ''Bob'' \<and>
   get (userData bob) ''role'' \<noteq> JStr Administrator \<and>
   textDelete False bob_request bob board2 =
     (bob, board2\<lparr>drawings := [note2]\<rparr>, [(ToOthers, ''textDelete'', JNum 1)])"
  by (simp add: textDelete_def canDelete_def delete_drawing_def id_matches_def bob_def
        bob_request_def board2_def note1_def note2_def Administrator_def)

subsection \<open>Clearing the board\<close>

text \<open>
  C3, as the code has it. For a \<open>clear\<close> event of an Administrator who has joined: when
  the \<open>DELETE\<close> succeeds the table of items is empty, a \<open>clear\<close> notice goes to every
  connection, the issuer included, and after it the ``cleared by'' notification, which
  server.js sends to every connection as well and the second file to every connection
  but the issuer; when the \<open>DELETE\<close> fails the store is unchanged and the issuer alone
  gets a \<open>clear_error\<close>.
\<close>

theorem clear_by_administrator:
  assumes active: "truthy (userData s)"
    and admin: "get (userData s) ''role'' = JStr Administrator"
  shows
    "clear False ts s d =
       (s, delete_all_drawings d,
        [(ToAll, ''clear'', JUndefined), (ToAll, ''notification'', cleared_notification ts s)]) \<and>
     drawings (delete_all_drawings d) = [] \<and>
     received (socket_id s) (snd (snd (clear False ts s d))) c =
       [(''clear'', JUndefined), (''notification'', cleared_notification ts s)] \<and>
     clear True ts s d =
       (s, d, [(ToSender, ''clear_error'', JObj [(''message'', JStr msg_clear_failed)])]) \<and>
     part0_clear False ts s d =
       Done s (delete_all_drawings d)
         [(ToAll, ''clear'', JUndefined), (ToOthers, ''notification'', cleared_notification ts s)] \<and>
     received (socket_id s)
       [(ToAll, ''clear'', JUndefined), (ToOthers, ''notification'', cleared_notification ts s)] c =
       (if c = socket_id s then [(''clear'', JUndefined)]
        else [(''clear'', JUndefined), (''notification'', cleared_notification ts s)]) \<and>
     part0_clear True ts s d =
       Done s d [(ToSender, ''clear_error'', JObj [(''message'', JStr msg_clear_failed)])]"
  using active admin
  by (simp add: clear_def part0_clear_def delete_all_drawings_def received_def)

theorem clear_by_administrator_witness:
  "truthy (userData cara) \<and> get (userData cara) ''role'' = JStr Administrator \<and>
   drawings (fst (snd (clear False ''2024-01-01T10:01:00.000Z'' cara board1))) = [] \<and>
   received (socket_id cara) (snd (snd (clear False ''2024-01-01T10:01:00.000Z'' cara board1)))
     (socket_id bob) =
     [(''clear'', JUndefined), (''notification'', cleared_notification ''2024-01-01T10:01:00.000Z'' cara)]"
proof -
  have h: "truthy (userData cara)" "get (userData cara) ''role'' = JStr Administrator"
    by (simp_all add: cara_def)
  show ?thesis
    using h clear_by_administrator [OF h, where d = board1 and c = "socket_id bob"
        and ts = "''2024-01-01T10:01:00.000Z''"]
    by (auto simp: delete_all_drawings_def received_def)
qed

text \<open>
  C3 as stated fails on server.js: the issuer receives the notification too, and after
  a failed \<open>DELETE\<close> the store still holds its items.
\<close>

theorem clear_notification_reaches_issuer:
  "truthy (userData cara) \<and> get (userData cara) ''role'' = JStr Administrator \<and>
   received (socket_id cara) (snd (snd (clear False ''2024-01-01T10:01:00.000Z'' cara board1)))
     (socket_id cara) =
     [(''clear'', JUndefined), (''notification'', cleared_notification ''2024-01-01T10:01:00.000Z'' cara)] \<and>
   drawings (fst (snd (clear True ''2024-01-01T10:01:00.000Z'' cara board1))) = [note1]"
  by (simp add: clear_def received_def cara_def board1_def)

text \<open>
  C4. A \<open>clear\<close> event of a joined participant whose role is not the Administrator's
  leaves the store as it is and sends one \<open>clear_error\<close>, which the issuer receives and
  no other connection does; nothing else is sent. Both server files agree.
\<close>

theorem clear_refused_for_other_roles:
  assumes active: "truthy (userData s)"
    and other: "get (userData s) ''role'' \<noteq> JStr Administrator"
  shows
    "clear fault ts s d =
       (s, d, [(ToSender, ''clear_error'', JObj [(''message'', JStr msg_only_teacher)])]) \<and>
     part0_clear fault ts s d =
       Done s d [(ToSender, ''clear_error'', JObj [(''message'', JStr msg_only_teacher)])] \<and>
     received (socket_id s) (snd (snd (clear fault ts s d))) c =
       (if c = socket_id s then [(''clear_error'', JObj [(''message'', JStr msg_only_teacher)])]
        else [])"
  using active other
  by (simp add: clear_def part0_clear_def received_def strict_eq_Administrator)

theorem clear_refused_for_other_roles_witness:
  "truthy (userData bob) \<and> get (userData bob) ''role'' \<noteq> JStr Administrator \<and>
   clear False ''2024-01-01T10:01:00.000Z'' bob board1 =
     (bob, board1, [(ToSender, ''clear_error'', JObj [(''message'', JStr msg_only_teacher)])]) \<and>
   received (socket_id bob) (snd (snd (clear False ''2024-01-01T10:01:00.000Z'' bob board1)))
     (socket_id ann) = [] \<and>
   received (socket_id bob) (snd (snd (clear False ''2024-01-01T10:01:00.000Z'' bob board1)))
     (socket_id bob) = [(''clear_error'', JObj [(''message'', JStr msg_only_teacher)])]"
proof -
  have h: "truthy (userData bob)" "get (userData bob) ''role'' \<noteq> JStr Administrator"
    by (simp_all add: bob_def Administrator_def)
  have ids: "socket_id ann \<noteq> socket_id bob"
    by (simp add: ann_def bob_def)
  show ?thesis
    using h ids
      clear_refused_for_other_roles [OF h, where d = board1 and c = "socket_id ann"
        and ts = "''2024-01-01T10:01:00.000Z''" and fault = False]
      clear_refused_for_other_roles [OF h, where d = board1 and c = "socket_id bob"
        and ts = "''2024-01-01T10:01:00.000Z''" and fault = False]
    by (auto simp: received_def)
qed

subsection \<open>One session per connection\<close>

text \<open>
  The \<open>UNIQUE\<close> constraint is an invariant of server.js: \<open>INSERT OR REPLACE\<close> keeps it
  and leaves exactly one row for the socket, the new one; the two \<open>DELETE\<close>s keep it;
  no other handler writes the table.
\<close>

lemma insert_or_replace_session_unique:
  assumes "insert_or_replace_session now uname role sid d = Some d'"
  shows "sessions_unique d \<Longrightarrow> sessions_unique d'"
    and "\<exists>r. filter (\<lambda>r. sessions_socket_id r = sid) (user_sessions d') = [r] \<and>
             sessions_username r = bind d uname \<and> sessions_role r = bind d role"
proof -
  let ?keep = "filter (\<lambda>r. sessions_socket_id r \<noteq> sid) (user_sessions d)"
  let ?new = "new_session now uname role sid d"
  have d': "user_sessions d' = ?keep @ [?new]"
    using assms by (auto simp: insert_or_replace_session_def split: if_splits)
  have fresh: "sid \<notin> set (map sessions_socket_id ?keep)"
    by auto
  have sid: "sessions_socket_id ?new = sid"
    by (simp add: new_session_def)
  show "sessions_unique d'" if "sessions_unique d"
  proof -
    have "distinct (map sessions_socket_id ?keep)"
      using that by (simp add: sessions_unique_def distinct_map_filter)
    then show ?thesis
      using fresh sid by (simp add: sessions_unique_def d')
  qed
  have "filter (\<lambda>r. sessions_socket_id r = sid) ?keep = []"
    by (simp add: filter_empty_conv)
  then have "filter (\<lambda>r. sessions_socket_id r = sid) (user_sessions d') = [?new]"
    by (simp add: d' sid)
  then show "\<exists>r. filter (\<lambda>r. sessions_socket_id r = sid) (user_sessions d') = [r] \<and>
             sessions_username r = bind d uname \<and> sessions_role r = bind d role"
    by (simp add: new_session_def)
qed

lemma delete_session_unique: "sessions_unique d \<Longrightarrow> sessions_unique (delete_session sid d)"
  by (simp add: sessions_unique_def delete_session_def distinct_map_filter)

lemma delete_old_sessions_unique: "sessions_unique d \<Longrightarrow> sessions_unique (delete_old_sessions cutoff d)"
  by (simp add: sessions_unique_def delete_old_sessions_def distinct_map_filter)

lemma sessions_unique_cong: "user_sessions d' = user_sessions d \<Longrightarrow> sessions_unique d' = sessions_unique d"
  by (simp add: sessions_unique_def)

lemma user_join_unique:
  "sessions_unique d \<Longrightarrow> sessions_unique (fst (snd (user_join fault q now ts uData s d)))"
  by (auto simp: user_join_def split: option.splits dest: insert_or_replace_session_unique(1))

lemma disconnect_unique:
  "sessions_unique d \<Longrightarrow> sessions_unique (fst (snd (disconnect fault q ts s d)))"
  by (simp add: disconnect_def delete_session_unique)

lemma drawing_sessions: "user_sessions (fst (snd (drawing fault now ts dat s d))) = user_sessions d"
  by (simp add: drawing_def insert_drawing_def)

lemma text_created_sessions: "user_sessions (fst (snd (text_created fault now ts dat s d))) = user_sessions d"
  by (simp add: text_created_def insert_drawing_def)

lemma textUpdate_sessions: "user_sessions (fst (snd (textUpdate fault ts dat s d))) = user_sessions d"
  by (simp add: textUpdate_def update_drawing_def)

lemma textMove_sessions: "user_sessions (fst (snd (textMove fault ts dat s d))) = user_sessions d"
  by (simp add: textMove_def update_drawing_def)

lemma textDelete_sessions: "user_sessions (fst (snd (textDelete fault dat s d))) = user_sessions d"
  by (simp add: textDelete_def delete_drawing_def)

lemma clear_sessions: "user_sessions (fst (snd (clear fault ts s d))) = user_sessions d"
  by (simp add: clear_def delete_all_drawings_def)

lemma api_sessions:
  "user_sessions (fst (snd (api_delete_drawing fault ident req_body d))) = user_sessions d"
  "user_sessions (fst (snd (api_clear fault req_body d))) = user_sessions d"
  "user_sessions (fst (snd (api_save fault now req_body d))) = user_sessions d"
  by (simp_all add: api_delete_drawing_def api_clear_def api_save_def delete_drawing_def
        delete_all_drawings_def insert_drawing_def)

lemma on_socket_unique:
  assumes "\<And>s d. sessions_unique d \<Longrightarrow> sessions_unique (fst (snd (h s d)))"
    and "sessions_unique (database st)"
  shows "sessions_unique (database (fst (on_socket sid h st)))"
proof (cases "find (\<lambda>s. socket_id s = sid) (sockets st)")
  case None
  then show ?thesis using assms(2) by (simp add: on_socket_def)
next
  case (Some s)
  obtain s' d' es where h: "h s (database st) = (s', d', es)"
    by (cases "h s (database st)") auto
  have "sessions_unique d'"
    using assms(1) [OF assms(2), of s] h by simp
  then show ?thesis
    using Some h by (simp add: on_socket_def)
qed

lemma on_request_unique:
  assumes "\<And>d. user_sessions (fst (snd (h d))) = user_sessions d"
    and "sessions_unique (database st)"
  shows "sessions_unique (database (fst (on_request h st)))"
proof -
  obtain r d' es where h: "h (database st) = (r, d', es)"
    by (cases "h (database st)") auto
  have "user_sessions d' = user_sessions (database st)"
    using assms(1) [of "database st"] h by simp
  then show ?thesis
    using assms(2) h by (simp add: on_request_def sessions_unique_def)
qed

lemma step_unique:
  assumes "sessions_unique (database st)"
  shows "sessions_unique (database (fst (step st e)))"
proof (cases e)
  case (Connection sid)
  then show ?thesis using assms by simp
next
  case (On_user_join sid fault q now ts uData)
  then show ?thesis using assms by (simp add: on_socket_unique user_join_unique)
next
  case (On_drawing sid fault now ts dat)
  then show ?thesis using assms
    by (simp add: on_socket_unique sessions_unique_cong [OF drawing_sessions])
next
  case (On_text sid fault now ts dat)
  then show ?thesis using assms
    by (simp add: on_socket_unique sessions_unique_cong [OF text_created_sessions])
next
  case (On_textUpdate sid fault ts dat)
  then show ?thesis using assms
    by (simp add: on_socket_unique sessions_unique_cong [OF textUpdate_sessions])
next
  case (On_textMove sid fault ts dat)
  then show ?thesis using assms
    by (simp add: on_socket_unique sessions_unique_cong [OF textMove_sessions])
next
  case (On_textDelete sid fault dat)
  then show ?thesis using assms
    by (simp add: on_socket_unique sessions_unique_cong [OF textDelete_sessions])
next
  case (On_clear sid fault ts)
  then show ?thesis using assms
    by (simp add: on_socket_unique sessions_unique_cong [OF clear_sessions])
next
  case (On_disconnect sid fault q ts)
  have "sessions_unique (database (fst (on_socket sid (disconnect fault q ts) st)))"
    using assms by (simp add: on_socket_unique disconnect_unique)
  then show ?thesis
    using On_disconnect by (simp add: split_beta)
next
  case (Sweep fault q cutoff)
  then show ?thesis using assms
    by (simp add: sweep_def delete_old_sessions_unique)
next
  case (Api_delete_drawing fault ident req_body)
  then show ?thesis using assms by (simp add: on_request_unique api_sessions)
next
  case (Api_clear fault req_body)
  then show ?thesis using assms by (simp add: on_request_unique api_sessions)
next
  case (Api_save fault now req_body)
  then show ?thesis using assms by (simp add: on_request_unique api_sessions)
qed

text \<open>
  From a state in which the constraint holds, it holds after every run of events of
  server.js.
\<close>

lemma run_unique:
  "sessions_unique (database st) \<Longrightarrow> sessions_unique (database (run st es))"
proof (induction es arbitrary: st)
  case Nil
  then show ?case by simp
next
  case (Cons e es)
  then show ?case by (simp add: step_unique)
qed

text \<open>
  C5 fails in the second server file, whose table has no \<open>UNIQUE\<close> constraint and
  whose \<open>user_join\<close> is a plain \<open>INSERT\<close>: two \<open>user_join\<close> events on one connection
  leave two session rows with the same socket id. The same two events leave one row in
  server.js.
\<close>

theorem part0_repeated_join_duplicates_session:
  "map sessions_socket_id
     (user_sessions (outcome_db
        (part0_user_join False None ''2024-01-01 10:00:09'' ''2024-01-01T10:00:09.000Z'' ann_join
           (outcome_socket
              (part0_user_join False None ''2024-01-01 10:00:00'' ''2024-01-01T10:00:00.000Z'' ann_join
                 fresh_socket empty_db))
           (outcome_db
              (part0_user_join False None ''2024-01-01 10:00:00'' ''2024-01-01T10:00:00.000Z'' ann_join
                 fresh_socket empty_db))))) = [''s9'', ''s9''] \<and>
   \<not> sessions_unique
     (outcome_db
        (part0_user_join False None ''2024-01-01 10:00:09'' ''2024-01-01T10:00:09.000Z'' ann_join
           (outcome_socket
              (part0_user_join False None ''2024-01-01 10:00:00'' ''2024-01-01T10:00:00.000Z'' ann_join
                 fresh_socket empty_db))
           (outcome_db
              (part0_user_join False None ''2024-01-01 10:00:00'' ''2024-01-01T10:00:00.000Z'' ann_join
                 fresh_socket empty_db)))) \<and>
   map sessions_socket_id
     (user_sessions (database
        (run \<lparr>sockets = [], database = empty_db\<rparr>
           [Connection ''s9'',
            On_user_join ''s9'' False None ''2024-01-01 10:00:00'' ''2024-01-01T10:00:00.000Z'' ann_join,
            On_user_join ''s9'' False None ''2024-01-01 10:00:09'' ''2024-01-01T10:00:09.000Z'' ann_join]))) =
     [''s9'']"
  by (simp add: part0_user_join_def ann_join_def fresh_socket_def empty_db_def insert_session_def
        new_session_def updateOnlineUsers_def sessions_unique_def on_socket_def user_join_def
        insert_or_replace_session_def)

subsection \<open>Joining without a username\<close>

text \<open>
  In server.js a \<open>user_join\<close> whose argument is missing or falsy, or whose username is
  missing or empty, changes nothing and sends nothing.
\<close>

lemma user_join_rejects_missing_username:
  assumes "\<not> truthy uData \<or> \<not> truthy (get uData ''username'')"
  shows "user_join fault q now ts uData s d = (s, d, [])"
  using assms by (auto simp: user_join_def)

lemma user_join_rejects_examples:
  "user_join fault q now ts JUndefined s d = (s, d, [])"
  "user_join fault q now ts (JObj [(''role'', r)]) s d = (s, d, [])"
  "user_join fault q now ts nameless s d = (s, d, [])"
  by (simp_all add: user_join_def nameless_def)

text \<open>
  C6 fails in the second server file, whose \<open>user_join\<close> has no validation: a join
  with an empty username binds the socket, inserts a session row and is announced to
  the other connections, and a join without an argument throws. server.js drops both
  events, as the lemmas above say.
\<close>

theorem part0_user_join_accepts_empty_username:
  "\<not> truthy (get nameless ''username'') \<and>
   part0_user_join False None ''2024-01-01 10:00:00'' ''2024-01-01T10:00:00.000Z'' nameless
       fresh_socket empty_db =
     Done (fresh_socket\<lparr>userData := JObj [(''username'', JStr []), (''role'', JStr ''Student''),
                                            (''socketId'', JStr ''s9'')]\<rparr>)
       (empty_db\<lparr>user_sessions :=
            [\<lparr>sessions_id = 1, sessions_username = JStr [], sessions_role = JStr ''Student'',
              sessions_socket_id = ''s9'', sessions_connected_at = ''2024-01-01 10:00:00''\<rparr>],
          user_sessions_seq := 1\<rparr>)
       [(ToOthers, ''user_joined'',
           JObj [(''username'', JStr []), (''role'', JStr ''Student''),
                 (''message'', JStr joined_suffix), (''timestamp'', JStr ''2024-01-01T10:00:00.000Z'')])] \<and>
   part0_user_join False None ''2024-01-01 10:00:00'' ''2024-01-01T10:00:00.000Z'' JUndefined
       fresh_socket empty_db = TypeError fresh_socket empty_db []"
  by (simp add: part0_user_join_def nameless_def fresh_socket_def empty_db_def
        insert_session_def new_session_def updateOnlineUsers_def)

subsection \<open>Deleting an item over HTTP\<close>

text \<open>
  C7, as server.js has it. The path parameter of a matched route is not empty.
  \<open>DELETE /api/drawing/:id\<close> answers 403 and deletes nothing when the role is not the
  Administrator's and \<open>userId !== owner\<close>. Otherwise it answers 500 and deletes nothing
  when the statement fails, 404 when the engine equates the path parameter with the id
  of no row, and else deletes exactly the rows whose id it equates with it, answers
  \<open>{success: true}\<close> and sends \<open>textDelete\<close> to every connection.
\<close>

theorem api_delete_drawing_responses:
  assumes path: "ident \<noteq> []"
  shows
    "(get req_body ''role'' \<noteq> JStr Administrator \<and>
      \<not> strict_eq (get req_body ''userId'') (get req_body ''owner'') \<longrightarrow>
        api_delete_drawing fault ident req_body d = (failure 403 msg_no_delete_rights, d, [])) \<and>
     (get req_body ''role'' = JStr Administrator \<or>
      strict_eq (get req_body ''userId'') (get req_body ''owner'') \<longrightarrow>
        api_delete_drawing True ident req_body d = (failure 500 ''Database error'', d, []) \<and>
        ((\<forall>r \<in> set (drawings d). \<not> id_matches d (JStr ident) r) \<longrightarrow>
           api_delete_drawing False ident req_body d = (failure 404 ''Drawing not found'', d, [])) \<and>
        ((\<exists>r \<in> set (drawings d). id_matches d (JStr ident) r) \<longrightarrow>
           api_delete_drawing False ident req_body d =
             (success, delete_drawing (JStr ident) d, [(ToAll, ''textDelete'', JStr ident)]) \<and>
           (\<forall>r \<in> set (drawings (delete_drawing (JStr ident) d)). \<not> id_matches d (JStr ident) r) \<and>
           (\<forall>r \<in> set (drawings d).
              \<not> id_matches d (JStr ident) r \<longrightarrow> r \<in> set (drawings (delete_drawing (JStr ident) d))) \<and>
           drawings (delete_drawing (JStr ident) d) =
             filter (\<lambda>r. \<not> id_matches d (JStr ident) r) (drawings d) \<and>
           user_sessions (delete_drawing (JStr ident) d) = user_sessions d \<and>
           received sender [(ToAll, ''textDelete'', JStr ident)] c = [(''textDelete'', JStr ident)]))"
proof -
  have refused: "api_delete_drawing fault ident req_body d = (failure 403 msg_no_delete_rights, d, [])"
    if "get req_body ''role'' \<noteq> JStr Administrator \<and>
        \<not> strict_eq (get req_body ''userId'') (get req_body ''owner'')"
    using that path by (simp add: api_delete_drawing_def strict_eq_Administrator)
  have faulty: "api_delete_drawing True ident req_body d = (failure 500 ''Database error'', d, [])"
    if "get req_body ''role'' = JStr Administrator \<or>
        strict_eq (get req_body ''userId'') (get req_body ''owner'')"
    using that path by (auto simp: api_delete_drawing_def strict_eq_Administrator)
  have missing: "api_delete_drawing False ident req_body d = (failure 404 ''Drawing not found'', d, [])"
    if "get req_body ''role'' = JStr Administrator \<or>
        strict_eq (get req_body ''userId'') (get req_body ''owner'')"
      and "\<forall>r \<in> set (drawings d). \<not> id_matches d (JStr ident) r"
    using that path
    by (auto simp: api_delete_drawing_def strict_eq_Administrator delete_changes_zero
          delete_drawing_absent)
  have deleted: "api_delete_drawing False ident req_body d =
             (success, delete_drawing (JStr ident) d, [(ToAll, ''textDelete'', JStr ident)])"
    if "get req_body ''role'' = JStr Administrator \<or>
        strict_eq (get req_body ''userId'') (get req_body ''owner'')"
      and "\<exists>r \<in> set (drawings d). id_matches d (JStr ident) r"
    using that path
    by (auto simp: api_delete_drawing_def strict_eq_Administrator delete_changes_zero)
  have gone: "\<forall>r \<in> set (drawings (delete_drawing (JStr ident) d)). \<not> id_matches d (JStr ident) r"
    "\<forall>r \<in> set (drawings d).
       \<not> id_matches d (JStr ident) r \<longrightarrow> r \<in> set (drawings (delete_drawing (JStr ident) d))"
    "drawings (delete_drawing (JStr ident) d) =
       filter (\<lambda>r. \<not> id_matches d (JStr ident) r) (drawings d)"
    "user_sessions (delete_drawing (JStr ident) d) = user_sessions d"
    by (simp_all add: delete_drawing_def)
  have all: "received sender [(ToAll, ''textDelete'', JStr ident)] c = [(''textDelete'', JStr ident)]"
    by (simp add: received_def)
  show ?thesis
    using refused faulty missing deleted gone all by blast
qed

theorem api_delete_drawing_responses_witness:
  "''1'' \<noteq> [] \<and> get bob_body ''role'' \<noteq> JStr Administrator \<and>
   \<not> strict_eq (get bob_body ''userId'') (get bob_body ''owner'') \<and>
   api_delete_drawing False ''1'' bob_body board1 = (failure 403 msg_no_delete_rights, board1, []) \<and>
   get cara_body ''role'' = JStr Administrator \<and>
   drawings board1 = [note1] \<and> \<not> id_matches board1 (JStr ''7'') note1 \<and>
   api_delete_drawing False ''7'' cara_body board1 = (failure 404 ''Drawing not found'', board1, []) \<and>
   (\<exists>r \<in> set (drawings board2). id_matches board2 (JStr ''1'') r) \<and>
   api_delete_drawing False ''1'' cara_body board2 =
     (success, delete_drawing (JStr ''1'') board2, [(ToAll, ''textDelete'', JStr ''1'')]) \<and>
   drawings (delete_drawing (JStr ''1'') board2) = [note2] \<and>
   id_matches board2 (JStr ''1.0'') note1 \<and>
   api_delete_drawing False ''1.0'' cara_body board2 =
     (success, delete_drawing (JStr ''1.0'') board2, [(ToAll, ''textDelete'', JStr ''1.0'')]) \<and>
   drawings (delete_drawing (JStr ''1.0'') board2) = [note2]"
proof -
  have p: "''1'' \<noteq> []" "''7'' \<noteq> []" "''1.0'' \<noteq> []"
    by simp_all
  have b: "get bob_body ''role'' \<noteq> JStr Administrator \<and>
           \<not> strict_eq (get bob_body ''userId'') (get bob_body ''owner'')"
    by (simp add: bob_body_def Administrator_def)
  have c: "get cara_body ''role'' = JStr Administrator"
    by (simp add: cara_body_def)
  have none: "\<forall>r \<in> set (drawings board1). \<not> id_matches board1 (JStr ''7'') r"
    by (simp add: board1_def note1_def id_matches_def numeral_integer_def trim_def is_space_def is_digit_def scaled_def)
  have some: "\<exists>r \<in> set (drawings board2). id_matches board2 (JStr ''1'') r"
    by (simp add: board2_def note1_def id_matches_def numeral_integer_def trim_def is_space_def is_digit_def scaled_def)
  have kept: "filter (\<lambda>r. \<not> id_matches board2 (JStr ''1'') r) (drawings board2) = [note2]"
    by (simp add: board2_def note1_def note2_def id_matches_def numeral_integer_def trim_def is_space_def is_digit_def scaled_def)
  have one: "id_matches board2 (JStr ''1.0'') note1"
    by (simp add: board2_def note1_def id_matches_def numeral_integer_def trim_def is_space_def is_digit_def scaled_def)
  have some': "\<exists>r \<in> set (drawings board2). id_matches board2 (JStr ''1.0'') r"
    using one by (simp add: board2_def)
  have kept': "filter (\<lambda>r. \<not> id_matches board2 (JStr ''1.0'') r) (drawings board2) = [note2]"
    by (simp add: board2_def note1_def note2_def id_matches_def numeral_integer_def trim_def is_space_def is_digit_def scaled_def)
  note B = api_delete_drawing_responses [OF p(1), where req_body = bob_body and d = board1 and fault = False]
  note M = api_delete_drawing_responses [OF p(2), where req_body = cara_body and d = board1]
  note D = api_delete_drawing_responses [OF p(1), where req_body = cara_body and d = board2]
  note D' = api_delete_drawing_responses [OF p(3), where req_body = cara_body and d = board2]
  from B b have r1: "api_delete_drawing False ''1'' bob_body board1 = (failure 403 msg_no_delete_rights, board1, [])"
    by blast
  from M c none have r2: "api_delete_drawing False ''7'' cara_body board1 = (failure 404 ''Drawing not found'', board1, [])"
    by blast
  from D c some have r3: "api_delete_drawing False ''1'' cara_body board2 =
     (success, delete_drawing (JStr ''1'') board2, [(ToAll, ''textDelete'', JStr ''1'')])"
    by blast
  from D c some have "drawings (delete_drawing (JStr ''1'') board2) =
     filter (\<lambda>r. \<not> id_matches board2 (JStr ''1'') r) (drawings board2)"
    by blast
  then have r4: "drawings (delete_drawing (JStr ''1'') board2) = [note2]"
    using kept by simp
  from D' c some' have r5: "api_delete_drawing False ''1.0'' cara_body board2 =
     (success, delete_drawing (JStr ''1.0'') board2, [(ToAll, ''textDelete'', JStr ''1.0'')])"
    by blast
  from D' c some' have "drawings (delete_drawing (JStr ''1.0'') board2) =
     filter (\<lambda>r. \<not> id_matches board2 (JStr ''1.0'') r) (drawings board2)"
    by blast
  then have r6: "drawings (delete_drawing (JStr ''1.0'') board2) = [note2]"
    using kept' by simp
  have rows: "drawings board1 = [note1]" "\<not> id_matches board1 (JStr ''7'') note1"
    by (simp_all add: board1_def note1_def id_matches_def numeral_integer_def trim_def is_space_def is_digit_def scaled_def)
  show ?thesis
    using p b c rows some one r1 r2 r3 r4 r5 r6 by simp
qed

text \<open>
  C7 as stated fails: with a failing statement an Administrator's request for an
  existing item is answered 500 and the item stays. In the second server file a
  request for an id that no row has is answered with success, and a deletion is not
  broadcast.
\<close>

theorem api_delete_drawing_storage_fault:
  "get cara_body ''role'' = JStr Administrator \<and>
   drawings board2 = [note1, note2] \<and> id_matches board2 (JStr ''1'') note1 \<and>
   api_delete_drawing True ''1'' cara_body board2 = (failure 500 ''Database error'', board2, []) \<and>
   part0_api_delete_drawing None ''7'' cara_body board2 = (success, board2, []) \<and>
   part0_api_delete_drawing None ''1'' cara_body board2 = (success, board2\<lparr>drawings := [note2]\<rparr>, [])"
  by (simp add: api_delete_drawing_def part0_api_delete_drawing_def cara_body_def board2_def
        note1_def note2_def id_matches_def numeral_integer_def trim_def is_space_def is_digit_def scaled_def delete_drawing_def)

subsection \<open>Listing the items\<close>

lemma insort_key_then:
  fixes g :: "'a \<Rightarrow> 'k::linorder" and f :: "'a \<Rightarrow> 'i::linorder"
  assumes "sorted_wrt (\<lambda>a b. g a < g b \<or> (g a = g b \<and> f a \<le> f b)) ys"
    and "\<forall>y\<in>set ys. f z \<le> f y"
  shows "sorted_wrt (\<lambda>a b. g a < g b \<or> (g a = g b \<and> f a \<le> f b)) (insort_key g z ys)"
  using assms
proof (induction ys)
  case Nil
  then show ?case by simp
next
  case (Cons y ys)
  show ?case
  proof (cases "g z \<le> g y")
    case True
    have "g z < g w \<or> (g z = g w \<and> f z \<le> f w)" if "w \<in> set (y # ys)" for w
    proof -
      have "g y \<le> g w" using that Cons.prems(1) by auto
      moreover have "f z \<le> f w" using that Cons.prems(2) by auto
      ultimately show ?thesis using True by auto
    qed
    then show ?thesis using True Cons.prems(1) by simp
  next
    case False
    then have "g y < g z" by simp
    moreover have "sorted_wrt (\<lambda>a b. g a < g b \<or> (g a = g b \<and> f a \<le> f b)) (insort_key g z ys)"
      using Cons by simp
    ultimately show ?thesis using False Cons.prems(1) by (auto simp: set_insort_key)
  qed
qed

lemma sort_key_then:
  fixes g :: "'a \<Rightarrow> 'k::linorder" and f :: "'a \<Rightarrow> 'i::linorder"
  shows "sorted (map f zs) \<Longrightarrow>
    sorted_wrt (\<lambda>a b. g a < g b \<or> (g a = g b \<and> f a \<le> f b)) (sort_key g zs)"
proof (induction zs)
  case Nil
  then show ?case by simp
next
  case (Cons z zs)
  have "sorted_wrt (\<lambda>a b. g a < g b \<or> (g a = g b \<and> f a \<le> f b)) (sort_key g zs)"
    using Cons by simp
  moreover have "\<forall>y\<in>set (sort_key g zs). f z \<le> f y"
    using Cons.prems by simp
  ultimately show ?case
    by (simp add: insort_key_then)
qed

lemma sorted_wrt_limit_offset: "sorted_wrt R xs \<Longrightarrow> sorted_wrt R (limit_offset l off xs)"
  by (simp add: limit_offset_def Let_def sorted_wrt_drop sorted_wrt_take)

lemma set_limit_offset: "set (limit_offset l off xs) \<subseteq> set xs"
  by (auto simp: limit_offset_def Let_def dest: in_set_takeD in_set_dropD)

lemma order_by_created_at_ascending: "ascending_created_at_then_id (order_by_created_at rows)"
  unfolding ascending_created_at_then_id_def order_by_created_at_def
  by (rule sort_key_then) simp

lemma order_by_created_at_mset: "mset (order_by_created_at rows) = mset rows"
  by (simp add: order_by_created_at_def)

lemma order_by_created_at_board3: "order_by_created_at (drawings board3) = [note3, note1, note2]"
  by (simp add: order_by_created_at_def board3_def note1_def note2_def note3_def)

text \<open>
  C8, as the code has it. \<open>GET /api/drawings\<close> of server.js answers 500 on a storage
  fault and when the limit or the offset is \<open>2\<^sup>6\<^sup>3\<close> or more, or \<open>-2\<^sup>6\<^sup>3\<close> or less.
  Otherwise it lists the \<open>LIMIT\<close>/\<open>OFFSET\<close> window of the rows of the table taken in
  ascending \<open>created_at\<close>, the rows of one \<open>created_at\<close> in ascending id: a zero or
  unreadable limit is 1000, a negative limit is none, a negative or unreadable offset
  is none. The second file has no window: it lists all the rows in that order, or the
  message of the fault with 500.
\<close>

theorem api_drawings_ascending_created_at_then_id:
  "(\<not> fault \<and> limit_range (page_limit parsed_limit) \<and> limit_range (page_offset parsed_offset) \<longrightarrow>
      api_drawings fault parsed_limit parsed_offset d =
        \<lparr>status = 200, body = JArr (map drawing_json (listed parsed_limit parsed_offset d))\<rparr>) \<and>
   (fault \<or> \<not> limit_range (page_limit parsed_limit) \<or> \<not> limit_range (page_offset parsed_offset) \<longrightarrow>
      api_drawings fault parsed_limit parsed_offset d =
        \<lparr>status = 500, body = JObj [(''error'', JStr ''Failed to fetch drawings'')]\<rparr>) \<and>
   listed parsed_limit parsed_offset d =
     (if page_limit parsed_limit < 0
      then drop (nat (page_offset parsed_offset)) (order_by_created_at (drawings d))
      else take (nat (page_limit parsed_limit))
             (drop (nat (page_offset parsed_offset)) (order_by_created_at (drawings d)))) \<and>
   page_limit parsed_limit =
     (if parsed_limit = None \<or> parsed_limit = Some 0 then 1000 else the parsed_limit) \<and>
   page_offset parsed_offset = (if parsed_offset = None then 0 else the parsed_offset) \<and>
   ascending_created_at_then_id (listed parsed_limit parsed_offset d) \<and>
   set (listed parsed_limit parsed_offset d) \<subseteq> set (drawings d) \<and>
   ascending_created_at_then_id (order_by_created_at (drawings d)) \<and>
   mset (order_by_created_at (drawings d)) = mset (drawings d) \<and>
   part0_api_drawings None d =
     \<lparr>status = 200, body = JArr (map drawing_json (order_by_created_at (drawings d)))\<rparr> \<and>
   part0_api_drawings (Some m) d = \<lparr>status = 500, body = JObj [(''error'', JStr m)]\<rparr>"
proof -
  have a: "\<not> fault \<and> limit_range (page_limit parsed_limit) \<and> limit_range (page_offset parsed_offset) \<longrightarrow>
      api_drawings fault parsed_limit parsed_offset d =
        \<lparr>status = 200, body = JArr (map drawing_json (listed parsed_limit parsed_offset d))\<rparr>"
    by (simp add: api_drawings_def)
  have b: "fault \<or> \<not> limit_range (page_limit parsed_limit) \<or> \<not> limit_range (page_offset parsed_offset) \<longrightarrow>
      api_drawings fault parsed_limit parsed_offset d =
        \<lparr>status = 500, body = JObj [(''error'', JStr ''Failed to fetch drawings'')]\<rparr>"
    by (auto simp: api_drawings_def)
  have c: "listed parsed_limit parsed_offset d =
     (if page_limit parsed_limit < 0
      then drop (nat (page_offset parsed_offset)) (order_by_created_at (drawings d))
      else take (nat (page_limit parsed_limit))
             (drop (nat (page_offset parsed_offset)) (order_by_created_at (drawings d))))"
    by (simp add: listed_def limit_offset_def Let_def)
  have pl: "page_limit parsed_limit =
     (if parsed_limit = None \<or> parsed_limit = Some 0 then 1000 else the parsed_limit)"
    by (cases parsed_limit) (simp_all add: page_limit_def)
  have po: "page_offset parsed_offset = (if parsed_offset = None then 0 else the parsed_offset)"
    by (cases parsed_offset) (simp_all add: page_offset_def)
  have e: "ascending_created_at_then_id (order_by_created_at (drawings d))"
    by (rule order_by_created_at_ascending)
  have f: "mset (order_by_created_at (drawings d)) = mset (drawings d)"
    by (rule order_by_created_at_mset)
  have w: "ascending_created_at_then_id (listed parsed_limit parsed_offset d)"
    using e unfolding ascending_created_at_then_id_def listed_def
    by (rule sorted_wrt_limit_offset)
  have "set (order_by_created_at (drawings d)) = set (drawings d)"
    using f by (rule mset_eq_setD)
  then have s: "set (listed parsed_limit parsed_offset d) \<subseteq> set (drawings d)"
    using set_limit_offset [of "page_limit parsed_limit" "page_offset parsed_offset"
        "order_by_created_at (drawings d)"]
    by (simp add: listed_def)
  have p: "part0_api_drawings None d =
     \<lparr>status = 200, body = JArr (map drawing_json (order_by_created_at (drawings d)))\<rparr>"
    "part0_api_drawings (Some m) d = \<lparr>status = 500, body = JObj [(''error'', JStr m)]\<rparr>"
    by (simp_all add: part0_api_drawings_def)
  show ?thesis
    by (intro conjI) (rule a b c pl po w s e f p)+
qed

theorem api_drawings_ascending_created_at_then_id_witness:
  "\<not> False \<and> limit_range (page_limit (Some 2)) \<and> limit_range (page_offset (Some 1)) \<and>
   api_drawings False (Some 2) (Some 1) board3 =
     \<lparr>status = 200, body = JArr [drawing_json note1, drawing_json note2]\<rparr> \<and>
   drawings board3 = [note1, note2, note3] \<and>
   part0_api_drawings None board3 =
     \<lparr>status = 200, body = JArr [drawing_json note3, drawing_json note1, drawing_json note2]\<rparr> \<and>
   ascending_created_at_then_id [note3, note1, note2] \<and>
   api_drawings True (Some 2) (Some 1) board3 =
     \<lparr>status = 500, body = JObj [(''error'', JStr ''Failed to fetch drawings'')]\<rparr>"
proof -
  have h: "\<not> False \<and> limit_range (page_limit (Some 2)) \<and> limit_range (page_offset (Some 1))"
    by (simp add: limit_range_def page_limit_def page_offset_def)
  note T = api_drawings_ascending_created_at_then_id
    [where fault = False and parsed_limit = "Some 2" and parsed_offset = "Some 1" and d = board3]
  note U = api_drawings_ascending_created_at_then_id
    [where fault = True and parsed_limit = "Some 2" and parsed_offset = "Some 1" and d = board3]
  note t1 = T [THEN conjunct1, THEN mp, OF h]
  note t3 = T [THEN conjunct2, THEN conjunct2, THEN conjunct1]
  note t8 = T [THEN conjunct2, THEN conjunct2, THEN conjunct2, THEN conjunct2, THEN conjunct2,
      THEN conjunct2, THEN conjunct2, THEN conjunct1]
  note t10 = T [THEN conjunct2, THEN conjunct2, THEN conjunct2, THEN conjunct2, THEN conjunct2,
      THEN conjunct2, THEN conjunct2, THEN conjunct2, THEN conjunct2, THEN conjunct1]
  note u2 = U [THEN conjunct2, THEN conjunct1, THEN mp]
  have l: "listed (Some 2) (Some 1) board3 = [note1, note2]"
    by (simp add: t3 order_by_created_at_board3 page_limit_def page_offset_def)
  have a: "api_drawings False (Some 2) (Some 1) board3 =
     \<lparr>status = 200, body = JArr [drawing_json note1, drawing_json note2]\<rparr>"
    by (simp add: t1 l)
  have o: "ascending_created_at_then_id [note3, note1, note2]"
    using t8 by (simp only: order_by_created_at_board3)
  have r: "drawings board3 = [note1, note2, note3]"
    by (simp add: board3_def)
  have p: "part0_api_drawings None board3 =
     \<lparr>status = 200, body = JArr [drawing_json note3, drawing_json note1, drawing_json note2]\<rparr>"
    by (simp add: t10 order_by_created_at_board3)
  have u: "api_drawings True (Some 2) (Some 1) board3 =
     \<lparr>status = 500, body = JObj [(''error'', JStr ''Failed to fetch drawings'')]\<rparr>"
    by (rule u2) simp
  from h a r p o u show ?thesis
    by blast
qed

text \<open>
  C8 as stated fails for the limit \<open>2\<^sup>6\<^sup>3\<close>: the board holds two notes,
  no statement faults, and the answer is the error, not the list.
\<close>

theorem api_drawings_limit_out_of_range:
  "drawings board2 = [note1, note2] \<and>
   api_drawings False (Some 9223372036854775808) None board2 =
     \<lparr>status = 500, body = JObj [(''error'', JStr ''Failed to fetch drawings'')]\<rparr>"
  by (simp add: board2_def api_drawings_def page_limit_def page_offset_def limit_range_def)

subsection \<open>Updating a text\<close>

text \<open>
  C9, as the code has it. A permitted \<open>textUpdate\<close> or \<open>textMove\<close> whose statement
  succeeds runs \<open>UPDATE drawings SET data = ? WHERE id = ?\<close>: the table keeps its length,
  every row keeps its id, type, \<open>user_id\<close> and \<open>created_at\<close>, a row whose id the engine
  equates with the id of the request gets the new payload and every other row is
  unchanged, as are the sessions. When the engine equates the id of the request with
  the id of no row, the store is unchanged and nothing is signalled: the originator
  receives no message and the update is broadcast to the others all the same.
\<close>

theorem update_replaces_payload_only:
  assumes active: "truthy (userData s)"
    and valid: "truthy dat" "truthy (get dat ''id'')"
    and allowed: "canEdit (userData s) dat"
  shows
    "textUpdate False ts dat s d =
       (s, update_drawing (stringify (stamped ts s dat)) (get dat ''id'') d,
        [(ToOthers, ''textUpdate'', stamped ts s dat)]) \<and>
     textMove False ts dat s d =
       (s, update_drawing (stringify (stamped ts s dat)) (get dat ''id'') d,
        [(ToOthers, ''textMove'', stamped ts s dat)]) \<and>
     length (drawings (update_drawing new (get dat ''id'') d)) = length (drawings d) \<and>
     (\<forall>i < length (drawings d).
        drawings_id (drawings (update_drawing new (get dat ''id'') d) ! i) = drawings_id (drawings d ! i) \<and>
        drawings_type (drawings (update_drawing new (get dat ''id'') d) ! i) = drawings_type (drawings d ! i) \<and>
        drawings_user_id (drawings (update_drawing new (get dat ''id'') d) ! i) =
          drawings_user_id (drawings d ! i) \<and>
        drawings_created_at (drawings (update_drawing new (get dat ''id'') d) ! i) =
          drawings_created_at (drawings d ! i) \<and>
        drawings_data (drawings (update_drawing new (get dat ''id'') d) ! i) =
          (if id_matches d (get dat ''id'') (drawings d ! i) then new else drawings_data (drawings d ! i)) \<and>
        (\<not> id_matches d (get dat ''id'') (drawings d ! i) \<longrightarrow>
           drawings (update_drawing new (get dat ''id'') d) ! i = drawings d ! i)) \<and>
     user_sessions (update_drawing new (get dat ''id'') d) = user_sessions d \<and>
     drawings_seq (update_drawing new (get dat ''id'') d) = drawings_seq d \<and>
     ((\<forall>r \<in> set (drawings d). \<not> id_matches d (get dat ''id'') r) \<longrightarrow>
        textUpdate False ts dat s d = (s, d, [(ToOthers, ''textUpdate'', stamped ts s dat)]) \<and>
        textMove False ts dat s d = (s, d, [(ToOthers, ''textMove'', stamped ts s dat)]) \<and>
        received (socket_id s) (snd (snd (textUpdate False ts dat s d))) (socket_id s) = [] \<and>
        received (socket_id s) (snd (snd (textMove False ts dat s d))) (socket_id s) = []) \<and>
     part0_textUpdate False ts dat s d =
       Done s (update_drawing (stringify (stamped ts s dat)) (get dat ''id'') d)
         [(ToOthers, ''textUpdate'', stamped ts s dat)] \<and>
     part0_textMove False ts dat s d =
       Done s (update_drawing (stringify (stamped ts s dat)) (get dat ''id'') d)
         [(ToOthers, ''textMove'', stamped ts s dat)]"
proof -
  have nn: "\<not> nullish dat"
    using valid(1) by (cases dat) simp_all
  have p0: "part0_textUpdate False ts dat s d =
       Done s (update_drawing (stringify (stamped ts s dat)) (get dat ''id'') d)
         [(ToOthers, ''textUpdate'', stamped ts s dat)]"
    "part0_textMove False ts dat s d =
       Done s (update_drawing (stringify (stamped ts s dat)) (get dat ''id'') d)
         [(ToOthers, ''textMove'', stamped ts s dat)]"
    using active nn allowed
    by (simp_all add: part0_textUpdate_def part0_textMove_def canMove_eq_canEdit)
  have upd: "textUpdate False ts dat s d =
       (s, update_drawing (stringify (stamped ts s dat)) (get dat ''id'') d,
        [(ToOthers, ''textUpdate'', stamped ts s dat)])"
    using active valid allowed by (simp add: textUpdate_def)
  have mov: "textMove False ts dat s d =
       (s, update_drawing (stringify (stamped ts s dat)) (get dat ''id'') d,
        [(ToOthers, ''textMove'', stamped ts s dat)])"
    using active valid allowed by (simp add: textMove_def canMove_eq_canEdit)
  have frame: "\<forall>i < length (drawings d).
        drawings_id (drawings (update_drawing new (get dat ''id'') d) ! i) = drawings_id (drawings d ! i) \<and>
        drawings_type (drawings (update_drawing new (get dat ''id'') d) ! i) = drawings_type (drawings d ! i) \<and>
        drawings_user_id (drawings (update_drawing new (get dat ''id'') d) ! i) =
          drawings_user_id (drawings d ! i) \<and>
        drawings_created_at (drawings (update_drawing new (get dat ''id'') d) ! i) =
          drawings_created_at (drawings d ! i) \<and>
        drawings_data (drawings (update_drawing new (get dat ''id'') d) ! i) =
          (if id_matches d (get dat ''id'') (drawings d ! i) then new else drawings_data (drawings d ! i)) \<and>
        (\<not> id_matches d (get dat ''id'') (drawings d ! i) \<longrightarrow>
           drawings (update_drawing new (get dat ''id'') d) ! i = drawings d ! i)"
    by (simp add: update_drawing_nth)
  have rest: "user_sessions (update_drawing new (get dat ''id'') d) = user_sessions d"
    "drawings_seq (update_drawing new (get dat ''id'') d) = drawings_seq d"
    by (simp_all add: update_drawing_def)
  have absent: "textUpdate False ts dat s d = (s, d, [(ToOthers, ''textUpdate'', stamped ts s dat)])"
    "textMove False ts dat s d = (s, d, [(ToOthers, ''textMove'', stamped ts s dat)])"
    "received (socket_id s) (snd (snd (textUpdate False ts dat s d))) (socket_id s) = []"
    "received (socket_id s) (snd (snd (textMove False ts dat s d))) (socket_id s) = []"
    if "\<forall>r \<in> set (drawings d). \<not> id_matches d (get dat ''id'') r"
    using that by (simp_all add: upd mov update_drawing_absent received_def)
  show ?thesis
    using upd mov frame rest absent p0 update_drawing_length [of new "get dat ''id''" d]
    by blast
qed

theorem update_replaces_payload_only_witness:
  "truthy (userData ann) \<and> truthy ann_edit \<and> truthy (get ann_edit ''id'') \<and>
   canEdit (userData ann) ann_edit \<and>
   0 < length (drawings board1) \<and> id_matches board1 (get ann_edit ''id'') (drawings board1 ! 0) \<and>
   drawings_user_id (drawings (update_drawing (JStr ''new'') (get ann_edit ''id'') board1) ! 0) = JStr ''Ann'' \<and>
   drawings_created_at (drawings (update_drawing (JStr ''new'') (get ann_edit ''id'') board1) ! 0) =
     ''2024-01-01 10:00:05'' \<and>
   drawings_data (drawings (update_drawing (JStr ''new'') (get ann_edit ''id'') board1) ! 0) = JStr ''new'' \<and>
   truthy ann_request \<and> truthy (get ann_request ''id'') \<and> canEdit (userData ann) ann_request \<and>
   drawings board1 = [note1] \<and> \<not> id_matches board1 (get ann_request ''id'') note1 \<and>
   textUpdate False ''2024-01-01T10:02:00.000Z'' ann_request ann board1 =
     (ann, board1, [(ToOthers, ''textUpdate'', stamped ''2024-01-01T10:02:00.000Z'' ann ann_request)]) \<and>
   truthy ann_edit_text \<and> truthy (get ann_edit_text ''id'') \<and> canEdit (userData ann) ann_edit_text \<and>
   drawings board2 = [note1, note2] \<and>
   id_matches board2 (get ann_edit_text ''id'') note1 \<and>
   \<not> id_matches board2 (get ann_edit_text ''id'') note2 \<and>
   drawings_data (drawings (update_drawing (JStr ''new'') (get ann_edit_text ''id'') board2) ! 0) =
     JStr ''new'' \<and>
   drawings (update_drawing (JStr ''new'') (get ann_edit_text ''id'') board2) ! 1 = note2"
proof -
  have h: "truthy (userData ann)" "truthy ann_edit" "truthy (get ann_edit ''id'')"
    "canEdit (userData ann) ann_edit"
    by (simp_all add: ann_def ann_edit_def canEdit_def)
  have k: "truthy ann_request" "truthy (get ann_request ''id'')" "canEdit (userData ann) ann_request"
    by (simp_all add: ann_def ann_request_def canEdit_def)
  have t: "truthy ann_edit_text" "truthy (get ann_edit_text ''id'')"
    "canEdit (userData ann) ann_edit_text"
    by (simp_all add: ann_def ann_edit_text_def canEdit_def)
  have row: "0 < length (drawings board1)" "id_matches board1 (get ann_edit ''id'') (drawings board1 ! 0)"
    "drawings_user_id (drawings board1 ! 0) = JStr ''Ann''"
    "drawings_created_at (drawings board1 ! 0) = ''2024-01-01 10:00:05''"
    by (simp_all add: board1_def note1_def ann_edit_def id_matches_def)
  have none: "\<forall>r \<in> set (drawings board1). \<not> id_matches board1 (get ann_request ''id'') r"
    by (simp add: board1_def note1_def ann_request_def id_matches_def)
  have two: "drawings board2 = [note1, note2]"
    "id_matches board2 (get ann_edit_text ''id'') note1"
    "\<not> id_matches board2 (get ann_edit_text ''id'') note2"
    by (simp_all add: board2_def note1_def note2_def ann_edit_text_def id_matches_def numeral_integer_spellings)
  have len: "0 < length (drawings board2)" "1 < length (drawings board2)"
    by (simp_all add: two(1))
  note E = update_replaces_payload_only [OF h, where d = board1 and new = "JStr ''new''"
      and ts = "''2024-01-01T10:02:00.000Z''"]
  note R = update_replaces_payload_only [OF h(1) k, where d = board1 and new = "JStr ''new''"
      and ts = "''2024-01-01T10:02:00.000Z''"]
  note T = update_replaces_payload_only [OF h(1) t, where d = board2 and new = "JStr ''new''"
      and ts = "''2024-01-01T10:02:00.000Z''"]
  note T0 = T [THEN conjunct2, THEN conjunct2, THEN conjunct2, THEN conjunct1, THEN spec,
      THEN mp, OF len(1)]
  note T1 = T [THEN conjunct2, THEN conjunct2, THEN conjunct2, THEN conjunct1, THEN spec,
      THEN mp, OF len(2)]
  from E row(1) have e:
    "drawings_user_id (drawings (update_drawing (JStr ''new'') (get ann_edit ''id'') board1) ! 0) =
       drawings_user_id (drawings board1 ! 0)"
    "drawings_created_at (drawings (update_drawing (JStr ''new'') (get ann_edit ''id'') board1) ! 0) =
       drawings_created_at (drawings board1 ! 0)"
    "drawings_data (drawings (update_drawing (JStr ''new'') (get ann_edit ''id'') board1) ! 0) =
       (if id_matches board1 (get ann_edit ''id'') (drawings board1 ! 0) then JStr ''new''
        else drawings_data (drawings board1 ! 0))"
    by blast+
  from R none have r:
    "textUpdate False ''2024-01-01T10:02:00.000Z'' ann_request ann board1 =
       (ann, board1, [(ToOthers, ''textUpdate'', stamped ''2024-01-01T10:02:00.000Z'' ann ann_request)])"
    by blast
  have t0: "drawings_data (drawings (update_drawing (JStr ''new'') (get ann_edit_text ''id'') board2) ! 0) =
     JStr ''new''"
    using T0 two by simp
  have t1: "drawings (update_drawing (JStr ''new'') (get ann_edit_text ''id'') board2) ! 1 = note2"
    using T1 two by simp
  have rows: "drawings board1 = [note1]" "\<not> id_matches board1 (get ann_request ''id'') note1"
    by (simp_all add: board1_def note1_def ann_request_def id_matches_def)
  have a: "truthy (userData ann) \<and> truthy ann_edit \<and> truthy (get ann_edit ''id'') \<and>
   canEdit (userData ann) ann_edit \<and>
   0 < length (drawings board1) \<and> id_matches board1 (get ann_edit ''id'') (drawings board1 ! 0) \<and>
   drawings_user_id (drawings (update_drawing (JStr ''new'') (get ann_edit ''id'') board1) ! 0) = JStr ''Ann'' \<and>
   drawings_created_at (drawings (update_drawing (JStr ''new'') (get ann_edit ''id'') board1) ! 0) =
     ''2024-01-01 10:00:05'' \<and>
   drawings_data (drawings (update_drawing (JStr ''new'') (get ann_edit ''id'') board1) ! 0) = JStr ''new'' \<and>
   truthy ann_request \<and> truthy (get ann_request ''id'') \<and> canEdit (userData ann) ann_request \<and>
   drawings board1 = [note1] \<and> \<not> id_matches board1 (get ann_request ''id'') note1 \<and>
   textUpdate False ''2024-01-01T10:02:00.000Z'' ann_request ann board1 =
     (ann, board1, [(ToOthers, ''textUpdate'', stamped ''2024-01-01T10:02:00.000Z'' ann ann_request)])"
    using h k row rows e r by simp
  from a t two t0 t1 show ?thesis
    by blast
qed

text \<open>
  C9 as stated fails in its last part: Ann's update of an id that no row has leaves the
  store unchanged, sends her nothing and reaches Bob as an ordinary update.
\<close>

theorem update_of_absent_id_is_silent:
  "truthy (userData ann) \<and> canEdit (userData ann) ann_request \<and>
   drawings board1 = [note1] \<and> \<not> id_matches board1 (get ann_request ''id'') note1 \<and>
   fst (snd (textUpdate False ''2024-01-01T10:02:00.000Z'' ann_request ann board1)) = board1 \<and>
   received (socket_id ann)
     (snd (snd (textUpdate False ''2024-01-01T10:02:00.000Z'' ann_request ann board1))) (socket_id ann) = [] \<and>
   received (socket_id ann)
     (snd (snd (textUpdate False ''2024-01-01T10:02:00.000Z'' ann_request ann board1))) (socket_id bob) =
     [(''textUpdate'', stamped ''2024-01-01T10:02:00.000Z'' ann ann_request)]"
  by (simp add: textUpdate_def canEdit_def update_drawing_def id_matches_def received_def
        ann_def bob_def ann_request_def board1_def note1_def)

subsection \<open>Broadcasts and storage faults\<close>

text \<open>
  C10. For a valid \<open>drawing\<close>, \<open>text\<close>, \<open>textUpdate\<close>, \<open>textMove\<close> or \<open>textDelete\<close>
  event of a joined participant, every other connection receives the broadcast whether
  or not the statement fails, in both server files; in server.js the failure adds an
  error notice for the sender of a \<open>textUpdate\<close>, \<open>textMove\<close> or \<open>textDelete\<close>. After a
  failed statement the store is unchanged although the broadcast went out.
\<close>

theorem broadcast_regardless_of_storage_fault:
  assumes active: "truthy (userData s)"
    and other: "c \<noteq> socket_id s"
  shows
    "(truthy dat \<and> truthy (get dat ''from'') \<and> truthy (get dat ''to'') \<longrightarrow>
        snd (snd (drawing fault now ts dat s d)) = [(ToOthers, ''drawing'', stamped ts s dat)] \<and>
        received (socket_id s) (snd (snd (drawing fault now ts dat s d))) c =
          [(''drawing'', stamped ts s dat)] \<and>
        fst (snd (drawing True now ts dat s d)) = d) \<and>
     (truthy dat \<and> truthy (get dat ''text'') \<and> truthy (get dat ''id'') \<longrightarrow>
        snd (snd (text_created fault now ts dat s d)) = [(ToOthers, ''text'', stamped ts s dat)] \<and>
        received (socket_id s) (snd (snd (text_created fault now ts dat s d))) c =
          [(''text'', stamped ts s dat)] \<and>
        fst (snd (text_created True now ts dat s d)) = d) \<and>
     (truthy dat \<and> truthy (get dat ''id'') \<and> canEdit (userData s) dat \<longrightarrow>
        snd (snd (textUpdate fault ts dat s d)) =
          (ToOthers, ''textUpdate'', stamped ts s dat)
          # (if fault then [error_notice msg_update_failed] else []) \<and>
        received (socket_id s) (snd (snd (textUpdate fault ts dat s d))) c =
          [(''textUpdate'', stamped ts s dat)] \<and>
        fst (snd (textUpdate True ts dat s d)) = d) \<and>
     (truthy dat \<and> truthy (get dat ''id'') \<and> canMove (userData s) dat \<longrightarrow>
        snd (snd (textMove fault ts dat s d)) =
          (ToOthers, ''textMove'', stamped ts s dat)
          # (if fault then [error_notice msg_move_failed] else []) \<and>
        received (socket_id s) (snd (snd (textMove fault ts dat s d))) c =
          [(''textMove'', stamped ts s dat)] \<and>
        fst (snd (textMove True ts dat s d)) = d) \<and>
     (truthy dat \<and> truthy (get dat ''id'') \<and> canDelete (userData s) dat \<longrightarrow>
        snd (snd (textDelete fault dat s d)) =
          (ToOthers, ''textDelete'', get dat ''id'')
          # (if fault then [error_notice msg_delete_failed] else []) \<and>
        received (socket_id s) (snd (snd (textDelete fault dat s d))) c =
          [(''textDelete'', get dat ''id'')] \<and>
        fst (snd (textDelete True dat s d)) = d) \<and>
     part0_drawing True now ts dat s d = Done s d [(ToOthers, ''drawing'', stamped ts s dat)] \<and>
     part0_text True now ts dat s d = Done s d [(ToOthers, ''text'', stamped ts s dat)] \<and>
     (\<not> nullish dat \<and> canEdit (userData s) dat \<longrightarrow>
        part0_textUpdate True ts dat s d = Done s d [(ToOthers, ''textUpdate'', stamped ts s dat)]) \<and>
     (\<not> nullish dat \<and> canMove (userData s) dat \<longrightarrow>
        part0_textMove True ts dat s d = Done s d [(ToOthers, ''textMove'', stamped ts s dat)]) \<and>
     (\<not> nullish dat \<and> canDelete (userData s) dat \<longrightarrow>
        part0_textDelete True dat s d = Done s d [(ToOthers, ''textDelete'', get dat ''id'')]) \<and>
     outcome_emits (part0_drawing fault now ts dat s d) = [(ToOthers, ''drawing'', stamped ts s dat)] \<and>
     received (socket_id s) (outcome_emits (part0_drawing fault now ts dat s d)) c =
       [(''drawing'', stamped ts s dat)] \<and>
     outcome_emits (part0_text fault now ts dat s d) = [(ToOthers, ''text'', stamped ts s dat)] \<and>
     received (socket_id s) (outcome_emits (part0_text fault now ts dat s d)) c =
       [(''text'', stamped ts s dat)] \<and>
     (\<not> nullish dat \<and> canEdit (userData s) dat \<longrightarrow>
        outcome_emits (part0_textUpdate fault ts dat s d) =
          [(ToOthers, ''textUpdate'', stamped ts s dat)] \<and>
        received (socket_id s) (outcome_emits (part0_textUpdate fault ts dat s d)) c =
          [(''textUpdate'', stamped ts s dat)]) \<and>
     (\<not> nullish dat \<and> canMove (userData s) dat \<longrightarrow>
        outcome_emits (part0_textMove fault ts dat s d) =
          [(ToOthers, ''textMove'', stamped ts s dat)] \<and>
        received (socket_id s) (outcome_emits (part0_textMove fault ts dat s d)) c =
          [(''textMove'', stamped ts s dat)]) \<and>
     (\<not> nullish dat \<and> canDelete (userData s) dat \<longrightarrow>
        outcome_emits (part0_textDelete fault dat s d) =
          [(ToOthers, ''textDelete'', get dat ''id'')] \<and>
        received (socket_id s) (outcome_emits (part0_textDelete fault dat s d)) c =
          [(''textDelete'', get dat ''id'')])"
proof -
  have q0: "outcome_emits (part0_drawing fault now ts dat s d) = [(ToOthers, ''drawing'', stamped ts s dat)]"
    "received (socket_id s) (outcome_emits (part0_drawing fault now ts dat s d)) c =
       [(''drawing'', stamped ts s dat)]"
    "outcome_emits (part0_text fault now ts dat s d) = [(ToOthers, ''text'', stamped ts s dat)]"
    "received (socket_id s) (outcome_emits (part0_text fault now ts dat s d)) c =
       [(''text'', stamped ts s dat)]"
    using active other by (simp_all add: part0_drawing_def part0_text_def received_def)
  have q1: "outcome_emits (part0_textUpdate fault ts dat s d) =
          [(ToOthers, ''textUpdate'', stamped ts s dat)]"
    "received (socket_id s) (outcome_emits (part0_textUpdate fault ts dat s d)) c =
          [(''textUpdate'', stamped ts s dat)]"
    if "\<not> nullish dat \<and> canEdit (userData s) dat"
    using that active other by (simp_all add: part0_textUpdate_def received_def)
  have q2: "outcome_emits (part0_textMove fault ts dat s d) =
          [(ToOthers, ''textMove'', stamped ts s dat)]"
    "received (socket_id s) (outcome_emits (part0_textMove fault ts dat s d)) c =
          [(''textMove'', stamped ts s dat)]"
    if "\<not> nullish dat \<and> canMove (userData s) dat"
    using that active other by (simp_all add: part0_textMove_def received_def)
  have q3: "outcome_emits (part0_textDelete fault dat s d) =
          [(ToOthers, ''textDelete'', get dat ''id'')]"
    "received (socket_id s) (outcome_emits (part0_textDelete fault dat s d)) c =
          [(''textDelete'', get dat ''id'')]"
    if "\<not> nullish dat \<and> canDelete (userData s) dat"
    using that active other by (simp_all add: part0_textDelete_def received_def)
  have dr: "snd (snd (drawing fault now ts dat s d)) = [(ToOthers, ''drawing'', stamped ts s dat)]"
    "received (socket_id s) (snd (snd (drawing fault now ts dat s d))) c = [(''drawing'', stamped ts s dat)]"
    "fst (snd (drawing True now ts dat s d)) = d"
    if "truthy dat \<and> truthy (get dat ''from'') \<and> truthy (get dat ''to'')"
    using that active other by (simp_all add: drawing_def received_def)
  have tx: "snd (snd (text_created fault now ts dat s d)) = [(ToOthers, ''text'', stamped ts s dat)]"
    "received (socket_id s) (snd (snd (text_created fault now ts dat s d))) c = [(''text'', stamped ts s dat)]"
    "fst (snd (text_created True now ts dat s d)) = d"
    if "truthy dat \<and> truthy (get dat ''text'') \<and> truthy (get dat ''id'')"
    using that active other by (simp_all add: text_created_def received_def)
  have up: "snd (snd (textUpdate fault ts dat s d)) =
          (ToOthers, ''textUpdate'', stamped ts s dat) # (if fault then [error_notice msg_update_failed] else [])"
    "received (socket_id s) (snd (snd (textUpdate fault ts dat s d))) c = [(''textUpdate'', stamped ts s dat)]"
    "fst (snd (textUpdate True ts dat s d)) = d"
    if "truthy dat \<and> truthy (get dat ''id'') \<and> canEdit (userData s) dat"
    using that active other by (simp_all add: textUpdate_def received_def error_notice_def)
  have mv: "snd (snd (textMove fault ts dat s d)) =
          (ToOthers, ''textMove'', stamped ts s dat) # (if fault then [error_notice msg_move_failed] else [])"
    "received (socket_id s) (snd (snd (textMove fault ts dat s d))) c = [(''textMove'', stamped ts s dat)]"
    "fst (snd (textMove True ts dat s d)) = d"
    if "truthy dat \<and> truthy (get dat ''id'') \<and> canMove (userData s) dat"
    using that active other by (simp_all add: textMove_def received_def error_notice_def)
  have de: "snd (snd (textDelete fault dat s d)) =
          (ToOthers, ''textDelete'', get dat ''id'') # (if fault then [error_notice msg_delete_failed] else [])"
    "received (socket_id s) (snd (snd (textDelete fault dat s d))) c = [(''textDelete'', get dat ''id'')]"
    "fst (snd (textDelete True dat s d)) = d"
    if "truthy dat \<and> truthy (get dat ''id'') \<and> canDelete (userData s) dat"
    using that active other by (simp_all add: textDelete_def received_def error_notice_def)
  have p0: "part0_drawing True now ts dat s d = Done s d [(ToOthers, ''drawing'', stamped ts s dat)]"
    "part0_text True now ts dat s d = Done s d [(ToOthers, ''text'', stamped ts s dat)]"
    using active by (simp_all add: part0_drawing_def part0_text_def)
  have p1: "part0_textUpdate True ts dat s d = Done s d [(ToOthers, ''textUpdate'', stamped ts s dat)]"
    if "\<not> nullish dat \<and> canEdit (userData s) dat"
    using that active by (simp add: part0_textUpdate_def)
  have p2: "part0_textMove True ts dat s d = Done s d [(ToOthers, ''textMove'', stamped ts s dat)]"
    if "\<not> nullish dat \<and> canMove (userData s) dat"
    using that active by (simp add: part0_textMove_def)
  have p3: "part0_textDelete True dat s d = Done s d [(ToOthers, ''textDelete'', get dat ''id'')]"
    if "\<not> nullish dat \<and> canDelete (userData s) dat"
    using that active by (simp add: part0_textDelete_def)
  show ?thesis
    by (intro conjI impI; (erule dr tx up mv de p1 p2 p3 q1 q2 q3 | rule p0 q0))
qed

theorem broadcast_regardless_of_storage_fault_witness:
  "truthy (userData ann) \<and> socket_id bob \<noteq> socket_id ann \<and>
   truthy a_stroke \<and> truthy (get a_stroke ''from'') \<and> truthy (get a_stroke ''to'') \<and>
   received (socket_id ann)
     (snd (snd (drawing True ''2024-01-01 10:03:00'' ''2024-01-01T10:03:00.000Z'' a_stroke ann board1)))
     (socket_id bob) = [(''drawing'', stamped ''2024-01-01T10:03:00.000Z'' ann a_stroke)] \<and>
   fst (snd (drawing True ''2024-01-01 10:03:00'' ''2024-01-01T10:03:00.000Z'' a_stroke ann board1)) = board1 \<and>
   truthy ann_edit \<and> truthy (get ann_edit ''text'') \<and> truthy (get ann_edit ''id'') \<and>
   \<not> nullish ann_edit \<and> canEdit (userData ann) ann_edit \<and> canMove (userData ann) ann_edit \<and>
   canDelete (userData ann) ann_edit \<and>
   fst (snd (text_created True ''2024-01-01 10:03:00'' ''2024-01-01T10:03:00.000Z'' ann_edit ann board1)) = board1 \<and>
   snd (snd (textUpdate True ''2024-01-01T10:03:00.000Z'' ann_edit ann board1)) =
     [(ToOthers, ''textUpdate'', stamped ''2024-01-01T10:03:00.000Z'' ann ann_edit),
      error_notice msg_update_failed] \<and>
   fst (snd (textUpdate True ''2024-01-01T10:03:00.000Z'' ann_edit ann board1)) = board1 \<and>
   fst (snd (textMove True ''2024-01-01T10:03:00.000Z'' ann_edit ann board1)) = board1 \<and>
   received (socket_id ann) (snd (snd (textDelete True ann_edit ann board1))) (socket_id bob) =
     [(''textDelete'', get ann_edit ''id'')] \<and>
   fst (snd (textDelete True ann_edit ann board1)) = board1 \<and>
   part0_textUpdate True ''2024-01-01T10:03:00.000Z'' ann_edit ann board1 =
     Done ann board1 [(ToOthers, ''textUpdate'', stamped ''2024-01-01T10:03:00.000Z'' ann ann_edit)] \<and>
   part0_textMove True ''2024-01-01T10:03:00.000Z'' ann_edit ann board1 =
     Done ann board1 [(ToOthers, ''textMove'', stamped ''2024-01-01T10:03:00.000Z'' ann ann_edit)] \<and>
   part0_textDelete True ann_edit ann board1 =
     Done ann board1 [(ToOthers, ''textDelete'', get ann_edit ''id'')] \<and>
   received (socket_id ann)
     (outcome_emits
        (part0_drawing False ''2024-01-01 10:03:00'' ''2024-01-01T10:03:00.000Z'' a_stroke ann board1))
     (socket_id bob) = [(''drawing'', stamped ''2024-01-01T10:03:00.000Z'' ann a_stroke)] \<and>
   received (socket_id ann)
     (snd (snd (drawing False ''2024-01-01 10:03:00'' ''2024-01-01T10:03:00.000Z'' a_stroke ann board1)))
     (socket_id bob) = [(''drawing'', stamped ''2024-01-01T10:03:00.000Z'' ann a_stroke)]"
proof -
  have h: "truthy (userData ann)" "socket_id bob \<noteq> socket_id ann"
    by (simp_all add: ann_def bob_def)
  have st: "truthy a_stroke \<and> truthy (get a_stroke ''from'') \<and> truthy (get a_stroke ''to'')"
    by (simp add: a_stroke_def)
  have ed: "truthy ann_edit \<and> truthy (get ann_edit ''text'') \<and> truthy (get ann_edit ''id'')"
    "truthy ann_edit \<and> truthy (get ann_edit ''id'') \<and> canEdit (userData ann) ann_edit"
    "truthy ann_edit \<and> truthy (get ann_edit ''id'') \<and> canMove (userData ann) ann_edit"
    "truthy ann_edit \<and> truthy (get ann_edit ''id'') \<and> canDelete (userData ann) ann_edit"
    "\<not> nullish ann_edit \<and> canEdit (userData ann) ann_edit"
    "\<not> nullish ann_edit \<and> canMove (userData ann) ann_edit"
    "\<not> nullish ann_edit \<and> canDelete (userData ann) ann_edit"
    by (simp_all add: ann_edit_def ann_def canEdit_def canMove_def canDelete_def)
  note S = broadcast_regardless_of_storage_fault [OF h, where dat = a_stroke and d = board1
      and fault = True and now = "''2024-01-01 10:03:00''" and ts = "''2024-01-01T10:03:00.000Z''"]
  note E = broadcast_regardless_of_storage_fault [OF h, where dat = ann_edit and d = board1
      and fault = True and now = "''2024-01-01 10:03:00''" and ts = "''2024-01-01T10:03:00.000Z''"]
  note F = broadcast_regardless_of_storage_fault [OF h, where dat = a_stroke and d = board1
      and fault = False and now = "''2024-01-01 10:03:00''" and ts = "''2024-01-01T10:03:00.000Z''"]
  note s1 = S [THEN conjunct1, THEN mp, OF st]
  note e1 = E [THEN conjunct2, THEN conjunct1, THEN mp, OF ed(1)]
  note e2 = E [THEN conjunct2, THEN conjunct2, THEN conjunct1, THEN mp, OF ed(2)]
  note e3 = E [THEN conjunct2, THEN conjunct2, THEN conjunct2, THEN conjunct1, THEN mp, OF ed(3)]
  note e4 = E [THEN conjunct2, THEN conjunct2, THEN conjunct2, THEN conjunct2, THEN conjunct1, THEN mp, OF ed(4)]
  note e5 = E [THEN conjunct2, THEN conjunct2, THEN conjunct2, THEN conjunct2, THEN conjunct2, THEN conjunct2, THEN conjunct2, THEN conjunct1, THEN mp, OF ed(5)]
  note e6 = E [THEN conjunct2, THEN conjunct2, THEN conjunct2, THEN conjunct2, THEN conjunct2, THEN conjunct2, THEN conjunct2, THEN conjunct2, THEN conjunct1, THEN mp, OF ed(6)]
  note e7 = E [THEN conjunct2, THEN conjunct2, THEN conjunct2, THEN conjunct2, THEN conjunct2, THEN conjunct2, THEN conjunct2, THEN conjunct2, THEN conjunct2, THEN conjunct1, THEN mp, OF ed(7)]
  note f1 = F [THEN conjunct2, THEN conjunct2, THEN conjunct2, THEN conjunct2, THEN conjunct2, THEN conjunct2, THEN conjunct2, THEN conjunct2, THEN conjunct2, THEN conjunct2, THEN conjunct2, THEN conjunct1]
  note f2 = F [THEN conjunct1, THEN mp, OF st]
  note f3 = F [THEN conjunct2, THEN conjunct2, THEN conjunct2, THEN conjunct2, THEN conjunct2, THEN conjunct2, THEN conjunct2, THEN conjunct2, THEN conjunct2, THEN conjunct2, THEN conjunct1]
  show ?thesis
    by (simp add: h st ed s1 e1 e2 e3 e4 e5 e6 e7 f1 f2 f3 received_def error_notice_def)
qed

end
